theory Spec2Isabelle
  imports Complex_Main
begin

section \<open>Values exchanged with the runtime and the backend\<close>

text \<open>
  The front end is a set of React components over one REST client. Each component keeps
  its state in \<open>useState\<close> cells; a handler reads the cells, awaits a request and
  writes the cells. A handler is modelled as a function from the state before and the
  outcome of each awaited request to the state after, together with the list of effects
  (requests sent, files saved) in the order the handler performs them.
\<close>

text \<open>
  A value of TypeScript type \<open>any\<close>, and every payload the views only store and render.
  \<open>Undefined\<close> is the value of a missing property.
\<close>

datatype js_value =
    Undefined
  | Null
  | Bool bool
  | Num real
  | Str string
  | Arr "js_value list"
  | Obj "(string \<times> js_value) list"

text \<open>JavaScript truthiness, as used by \<open>||\<close>, \<open>&&\<close> and \<open>!\<close>.\<close>

fun truthy :: "js_value \<Rightarrow> bool" where
  "truthy Undefined = False"
| "truthy Null = False"
| "truthy (Bool b) = b"
| "truthy (Num n) = (n \<noteq> 0)"
| "truthy (Str s) = (s \<noteq> [])"
| "truthy (Arr xs) = True"
| "truthy (Obj kvs) = True"

text \<open>\<open>a || b\<close>\<close>

definition js_or :: "js_value \<Rightarrow> js_value \<Rightarrow> js_value" where
  "js_or a b = (if truthy a then a else b)"

text \<open>
  \<open>v?.key\<close>: \<open>undefined\<close> on \<open>null\<close> and \<open>undefined\<close>, the property of an object, and
  \<open>undefined\<close> for a key that a primitive or an array does not carry.
\<close>

fun opt_member :: "js_value \<Rightarrow> string \<Rightarrow> js_value" where
  "opt_member (Obj kvs) key = (case map_of kvs key of Some v \<Rightarrow> v | None \<Rightarrow> Undefined)"
| "opt_member v key = Undefined"

text \<open>
  What a rejected request carries. \<open>NoResponse\<close> is a network failure or a timeout
  (\<open>err.response\<close> is undefined), \<open>ErrorResponse status d\<close> an HTTP error with
  \<open>err.response.data\<close> being \<open>d\<close>, \<open>Thrown msg\<close> an \<open>Error\<close> raised by the handler
  itself. The HTTP client hands over the body of an error response in the form the
  request asked for: parsed JSON for the JSON requests, a \<open>Blob\<close> for a request made
  with \<open>responseType: 'blob'\<close>.
\<close>

datatype 'd rejection =
    NoResponse
  | ErrorResponse nat 'd
  | Thrown string

type_synonym failure = "js_value rejection"

text \<open>\<open>d || fallback\<close> on an optional string: the empty string is falsy.\<close>

fun or_else :: "string option \<Rightarrow> string \<Rightarrow> string" where
  "or_else None fallback = fallback"
| "or_else (Some d) fallback = (if d \<noteq> [] then d else fallback)"

text \<open>The three mutually exclusive screens of a fetch-and-render view.\<close>

datatype screen = LoadingIndicator | ErrorPanel string | Content

text \<open>State shared by the components: the busy flag, and the error message of a view.\<close>

record busy =
  loading :: bool

record view_state = busy +
  error :: "string option"

section \<open>Customer, as in services/api.ts\<close>

text \<open>
  The form holds a \<open>Partial<Customer>\<close> and passes the same object on as a \<open>Customer\<close>;
  the cast does nothing at run time, so one record serves both, with \<open>age\<close> and \<open>id\<close>
  optional. The string unions \<open>gender\<close> and \<open>risk_appetite\<close> are strings.
\<close>

text \<open>
  The numbers the form can put into a numeric field: \<open>parseInt\<close> yields an integer,
  \<open>NaN\<close>, or an infinity (for a numeral too long for a double).
\<close>

datatype js_number = NaN | Finite int | PosInfinity | NegInfinity

record customer =
  cust_id :: "int option"
  name :: string
  email :: string
  phone :: string
  date_of_birth :: string
  age :: "int option"
  gender :: string
  occupation :: string
  annual_income :: js_number
  family_size :: js_number
  dependents :: js_number
  existing_insurance :: js_value
  health_conditions :: "string list"
  lifestyle_factors :: "string list"
  risk_appetite :: string
  investment_goals :: "string list"

section \<open>CustomerForm\<close>

text \<open>
  The calendar fields a \<open>Date\<close> answers to \<open>getFullYear()\<close>, \<open>getMonth()\<close> (0 to 11) and
  \<open>getDate()\<close>, which read the instant in local time.
\<close>

record jsdate =
  fullYear :: int
  month :: int
  date :: int

definition leap_year :: "int \<Rightarrow> bool" where
  "leap_year y \<longleftrightarrow> y mod 4 = 0 \<and> (y mod 100 \<noteq> 0 \<or> y mod 400 = 0)"

text \<open>The length of month \<open>m\<close> (0 to 11) of year \<open>y\<close>.\<close>

definition days_in_month :: "int \<Rightarrow> int \<Rightarrow> int" where
  "days_in_month y m =
     (if m = 1 then (if leap_year y then 29 else 28)
      else if m = 3 \<or> m = 5 \<or> m = 8 \<or> m = 10 then 30
      else 31)"

definition day_before :: "jsdate \<Rightarrow> jsdate" where
  "day_before d =
     (if 1 < date d then d\<lparr>date := date d - 1\<rparr>
      else if 0 < month d then
        d\<lparr>month := month d - 1, date := days_in_month (fullYear d) (month d - 1)\<rparr>
      else \<lparr>fullYear = fullYear d - 1, month = 11, date = 31\<rparr>)"

definition is_digit :: "char \<Rightarrow> bool" where
  "is_digit c \<longleftrightarrow> 48 \<le> (of_char c :: nat) \<and> (of_char c :: nat) \<le> 57"

definition digits_value :: "string \<Rightarrow> int" where
  "digits_value ds = foldl (\<lambda>n c. 10 * n + (int (of_char c) - 48)) 0 ds"

text \<open>
  The calendar date that a string of the date-only ISO form \<open>YYYY-MM-DD\<close> names, which
  is the form the value of an \<open><input type="date">\<close> has; \<open>None\<close> for every other
  string, and for a month or a day out of range.
\<close>

definition iso_date :: "string \<Rightarrow> jsdate option" where
  "iso_date s =
     (if length s = 10 \<and> s ! 4 = CHR ''-'' \<and> s ! 7 = CHR ''-'' \<and>
         list_all is_digit (take 4 s) \<and> list_all is_digit (take 2 (drop 5 s)) \<and>
         list_all is_digit (drop 8 s)
      then
        (let y = digits_value (take 4 s);
             m = digits_value (take 2 (drop 5 s));
             d = digits_value (drop 8 s)
         in if 1 \<le> m \<and> m \<le> 12 \<and> 1 \<le> d \<and> d \<le> days_in_month y (m - 1)
            then Some \<lparr>fullYear = y, month = m - 1, date = d\<rparr>
            else None)
      else None)"

text \<open>
  \<open>new Date(s)\<close>, read by the local getters. A date-only ISO string is the instant of
  midnight UTC on that day; \<open>tz\<close> is the offset of local time from UTC at that instant,
  in minutes (from -12:00 to +14:00), so the local day is the same day at and east of
  UTC and the day before west of it. For every other string the language leaves the
  parse to the implementation: \<open>other\<close> stands for it, with \<open>None\<close> for an Invalid Date.
\<close>

definition new_Date :: "int \<Rightarrow> (string \<Rightarrow> jsdate option) \<Rightarrow> string \<Rightarrow> jsdate option" where
  "new_Date tz other s =
     (case iso_date s of
        Some d \<Rightarrow> Some (if tz < 0 then day_before d else d)
      | None \<Rightarrow> other s)"

text \<open>
  \<open>today\<close> is \<open>new Date()\<close> as the local getters read it. On an Invalid Date every
  getter is \<open>NaN\<close>, so \<open>age\<close> is \<open>NaN\<close>, both comparisons of \<open>m\<close> are false and
  \<open>age >= 0\<close> is false: the result is \<open>null\<close>.
\<close>

definition calculateAge ::
  "int \<Rightarrow> (string \<Rightarrow> jsdate option) \<Rightarrow> jsdate \<Rightarrow> string \<Rightarrow> int option" where
  "calculateAge tz other today dob =
     (if dob = [] then None
      else case new_Date tz other dob of
        None \<Rightarrow> None
      | Some birthDate \<Rightarrow>
          (let age0 = fullYear today - fullYear birthDate;
               m = month today - month birthDate;
               age1 = (if m < 0 \<or> (m = 0 \<and> date today < date birthDate) then age0 - 1 else age0)
           in if age1 \<ge> 0 then Some age1 else None))"

text \<open>
  \<open>parseInt(value) || 0\<close>, with \<open>parseInt\<close> the runtime's: \<open>NaN\<close> and 0 are falsy and
  give 0, every other number is kept, the infinities too.
\<close>

definition parseInt_or_0 :: "(string \<Rightarrow> js_number) \<Rightarrow> string \<Rightarrow> js_number" where
  "parseInt_or_0 parseInt v =
     (case parseInt v of
        NaN \<Rightarrow> Finite 0
      | Finite n \<Rightarrow> (if n \<noteq> 0 then Finite n else Finite 0)
      | PosInfinity \<Rightarrow> PosInfinity
      | NegInfinity \<Rightarrow> NegInfinity)"

text \<open>
  \<open>handleInputChange\<close> on the input called \<open>field\<close> with the new \<open>v\<close>. The form has an
  input for each name below; \<open>age\<close> has none.
\<close>

definition handleInputChange ::
  "int \<Rightarrow> (string \<Rightarrow> jsdate option) \<Rightarrow> jsdate \<Rightarrow> (string \<Rightarrow> js_number) \<Rightarrow>
   string \<Rightarrow> string \<Rightarrow> customer \<Rightarrow> customer" where
  "handleInputChange tz other today parseInt field v prev =
     (if field = ''date_of_birth'' then
        prev\<lparr>date_of_birth := v, age := calculateAge tz other today v\<rparr>
      else if field = ''annual_income'' then prev\<lparr>annual_income := parseInt_or_0 parseInt v\<rparr>
      else if field = ''family_size'' then prev\<lparr>family_size := parseInt_or_0 parseInt v\<rparr>
      else if field = ''dependents'' then prev\<lparr>dependents := parseInt_or_0 parseInt v\<rparr>
      else if field = ''name'' then prev\<lparr>name := v\<rparr>
      else if field = ''email'' then prev\<lparr>email := v\<rparr>
      else if field = ''phone'' then prev\<lparr>phone := v\<rparr>
      else if field = ''gender'' then prev\<lparr>gender := v\<rparr>
      else if field = ''occupation'' then prev\<lparr>occupation := v\<rparr>
      else if field = ''risk_appetite'' then prev\<lparr>risk_appetite := v\<rparr>
      else prev)"

text \<open>
  The age line under the date input: shown when a date is entered, \<open>formData.age ?? '--'\<close>.
\<close>

definition ageDisplay :: "customer \<Rightarrow> (int + string) option" where
  "ageDisplay formData =
     (if date_of_birth formData \<noteq> [] then
        Some (case age formData of Some a \<Rightarrow> Inl a | None \<Rightarrow> Inr ''--'')
      else None)"

text \<open>The guard of \<open>handleSubmit\<close>: the four strings truthy and \<open>age !== undefined\<close>.\<close>

definition submittable :: "customer \<Rightarrow> bool" where
  "submittable formData \<longleftrightarrow>
     name formData \<noteq> [] \<and> email formData \<noteq> [] \<and> phone formData \<noteq> [] \<and>
     date_of_birth formData \<noteq> [] \<and> age formData \<noteq> None"

text \<open>
  The reading of "current date minus birth date, floored to completed years" that the
  specification gives: the difference of the calendar years, less one exactly when the
  current month and day fall before the birth month and day.
\<close>

definition before_in_year :: "jsdate \<Rightarrow> jsdate \<Rightarrow> bool" where
  "before_in_year a b \<longleftrightarrow> month a < month b \<or> (month a = month b \<and> date a < date b)"

definition spec_completed_years :: "jsdate \<Rightarrow> jsdate \<Rightarrow> int" where
  "spec_completed_years today birthDate =
     fullYear today - fullYear birthDate - (if before_in_year today birthDate then 1 else 0)"

text \<open>Calendar order, and the anniversary \<open>n\<close> years on.\<close>

definition date_le :: "jsdate \<Rightarrow> jsdate \<Rightarrow> bool" where
  "date_le a b \<longleftrightarrow>
     fullYear a < fullYear b \<or>
     (fullYear a = fullYear b \<and> (month a < month b \<or> (month a = month b \<and> date a \<le> date b)))"

definition add_years :: "int \<Rightarrow> jsdate \<Rightarrow> jsdate" where
  "add_years n d = d\<lparr>fullYear := fullYear d + n\<rparr>"

section \<open>Requests and effects\<close>

record customer_profile =
  profile_age :: int
  profile_gender :: string
  profile_annual_income :: int
  profile_risk_appetite :: string

record comparison_params =
  sum_assured :: int
  policy_term :: int
  premium_frequency :: string

text \<open>The \<open>calculatorInput\<close> object literal of \<open>createNeedsAnalysis\<close>; field \<open>x\<close> is \<open>in_x\<close>.\<close>

record calculator_input =
  in_customer_id :: "int option"
  in_calculation_type :: string
  in_age :: "int option"
  in_gender :: string
  in_annual_income :: js_number
  in_family_size :: js_number
  in_dependents :: js_number
  in_existing_coverage :: js_value
  in_debt_obligations :: int
  in_children_education_needs :: int
  in_retirement_needs :: int
  in_inflation_rate :: real
  in_return_rate :: real

record inflation_form =
  initial_investment :: real
  monthly_contribution :: real
  investment_period_years :: real
  expected_return_rate :: real
  inflation_rate :: real
  investment_frequency :: string

text \<open>One constructor for each endpoint the front end calls, with what it sends.\<close>

datatype request =
    PostCustomers customer
  | GetCustomerById int
  | GetCustomers
  | GetProducts
  | PostProductsCompare "int list" customer_profile int int string
  | PostNeedsAnalysis calculator_input
  | GetNeedsAnalysisEnhanced int
  | PostRecommendationsGenerate int
  | GetPdfNeedsAnalysis int
  | GetPdfComprehensiveReport int
  | GetMarketDataLatest
  | GetMarketDataTrends
  | GetMarketDataInsights
  | GetAnalyticsDashboard string
  | PostInflationAdjustedReturns inflation_form

type_synonym blob = string

type_synonym blob_failure = "blob rejection"

text \<open>
  \<open>err.response?.data?.detail\<close> for a request made with \<open>responseType: 'blob'\<close>: a \<open>Blob\<close>
  has no property \<open>detail\<close>, so the expression is \<open>undefined\<close> (\<open>None\<close>) whatever the
  server sent.
\<close>

definition Blob_detail :: "blob \<Rightarrow> string option" where
  "Blob_detail b = None"

fun detail :: "blob_failure \<Rightarrow> string option" where
  "detail NoResponse = None"
| "detail (ErrorResponse status d) = Blob_detail d"
| "detail (Thrown msg) = None"

text \<open>
  \<open>Download f b\<close> is the click on a temporary link whose \<open>download\<close> attribute is \<open>f\<close>
  and whose target is an object URL of \<open>b\<close>.
\<close>

datatype effect = Request request | Download string blob

fun is_request :: "effect \<Rightarrow> bool" where
  "is_request (Request q) = True"
| "is_request (Download f b) = False"

section \<open>Rendering shared by the views\<close>

text \<open>\<open>if (loading) ...; if (error) ...; return content\<close>\<close>

definition render :: "'a view_state_scheme \<Rightarrow> screen" where
  "render s =
     (if loading s then LoadingIndicator
      else case error s of
        Some e \<Rightarrow> (if e \<noteq> [] then ErrorPanel e else Content)
      | None \<Rightarrow> Content)"

text \<open>\<open>{error && <div>{error}</div>}\<close> of the views that show the message inside the page.\<close>

definition error_shown :: "'a view_state_scheme \<Rightarrow> string option" where
  "error_shown s = (case error s of Some e \<Rightarrow> (if e \<noteq> [] then Some e else None) | None \<Rightarrow> None)"

section \<open>App\<close>

text \<open>
  \<open>message\<close> is the pair of its \<open>type\<close> and \<open>text\<close>; \<open>currentCustomerId\<close> is \<open>None\<close> for
  \<open>null\<close> and for the \<open>undefined\<close> that \<open>savedCustomer.id!\<close> yields on a response without id.
\<close>

record app_state = busy +
  message :: "(string \<times> string) option"
  currentView :: string
  currentCustomerId :: "int option"

definition handleCustomerSubmit_pending :: "app_state \<Rightarrow> app_state" where
  "handleCustomerSubmit_pending s = s\<lparr>loading := True, message := None\<rparr>"

definition handleCustomerSubmit_settle :: "app_state \<Rightarrow> failure + customer \<Rightarrow> app_state" where
  "handleCustomerSubmit_settle s r =
     (case r of
        Inr savedCustomer \<Rightarrow>
          s\<lparr>currentCustomerId := cust_id savedCustomer,
            message := Some (''success'', ''Customer saved successfully! Generating needs analysis...''),
            currentView := ''needs-analysis''\<rparr>
      | Inl err \<Rightarrow>
          s\<lparr>message := Some (''error'', ''Failed to save customer. Please try again.'')\<rparr>)
     \<lparr>loading := False\<rparr>"

definition handleCustomerSubmit :: "app_state \<Rightarrow> customer \<Rightarrow> failure + customer \<Rightarrow> app_state \<times> effect list" where
  "handleCustomerSubmit s customer r =
     (handleCustomerSubmit_settle (handleCustomerSubmit_pending s) r,
      [Request (PostCustomers customer)])"

text \<open>
  \<open>handleSubmit\<close> of the form: \<open>onSubmit\<close> is the prop, \<open>skip\<close> what happens when the
  guard fails (nothing).
\<close>

definition CustomerForm_handleSubmit :: "(customer \<Rightarrow> 'r) \<Rightarrow> 'r \<Rightarrow> customer \<Rightarrow> 'r" where
  "CustomerForm_handleSubmit onSubmit skip formData =
     (if submittable formData then onSubmit formData else skip)"

text \<open>\<open><CustomerForm onSubmit={handleCustomerSubmit} loading={loading} />\<close>\<close>

definition submitCustomerForm :: "app_state \<Rightarrow> customer \<Rightarrow> failure + customer \<Rightarrow> app_state \<times> effect list" where
  "submitCustomerForm s formData r =
     CustomerForm_handleSubmit (\<lambda>c. handleCustomerSubmit s c r) (s, []) formData"

text \<open>The submit button, \<open>disabled={loading}\<close>: a disabled control starts nothing.\<close>

definition CustomerForm_disabled :: "app_state \<Rightarrow> bool" where
  "CustomerForm_disabled s = loading s"

definition CustomerForm_click :: "app_state \<Rightarrow> customer \<Rightarrow> failure + customer \<Rightarrow> app_state \<times> effect list" where
  "CustomerForm_click s formData r =
     (if CustomerForm_disabled s then (s, []) else submitCustomerForm s formData r)"

section \<open>ProductsList\<close>

record products_view = view_state +
  products :: "js_value list"

definition ProductsList_fetchProducts_pending :: "products_view \<Rightarrow> products_view" where
  "ProductsList_fetchProducts_pending s = s\<lparr>loading := True\<rparr>"

definition ProductsList_fetchProducts_settle :: "products_view \<Rightarrow> failure + js_value list \<Rightarrow> products_view" where
  "ProductsList_fetchProducts_settle s r =
     (case r of
        Inr data \<Rightarrow> s\<lparr>products := data\<rparr>
      | Inl err \<Rightarrow> s\<lparr>error := Some ''Failed to fetch products''\<rparr>)
     \<lparr>loading := False\<rparr>"

definition ProductsList_fetchProducts :: "products_view \<Rightarrow> failure + js_value list \<Rightarrow> products_view \<times> effect list" where
  "ProductsList_fetchProducts s r =
     (ProductsList_fetchProducts_settle (ProductsList_fetchProducts_pending s) r,
      [Request GetProducts])"

section \<open>ProductComparison\<close>

record comparison_view = products_view +
  selectedProducts :: "int list"
  customerProfile :: customer_profile
  comparisonParams :: comparison_params
  comparisonResult :: "js_value option"

definition ProductComparison_fetchProducts :: "comparison_view \<Rightarrow> failure + js_value list \<Rightarrow> comparison_view \<times> effect list" where
  "ProductComparison_fetchProducts s r =
     (case r of
        Inr data \<Rightarrow> s\<lparr>products := data\<rparr>
      | Inl err \<Rightarrow> s\<lparr>error := Some ''Failed to fetch products''\<rparr>,
      [Request GetProducts])"

text \<open>The updater that \<open>handleProductSelection\<close> hands to \<open>setSelectedProducts\<close>.\<close>

definition handleProductSelection_update :: "int \<Rightarrow> int list \<Rightarrow> int list" where
  "handleProductSelection_update productId prev =
     (if productId \<in> set prev then filter (\<lambda>i. i \<noteq> productId) prev else prev @ [productId])"

definition handleProductSelection :: "int \<Rightarrow> comparison_view \<Rightarrow> comparison_view" where
  "handleProductSelection productId s =
     s\<lparr>selectedProducts := handleProductSelection_update productId (selectedProducts s)\<rparr>"

text \<open>The selections a user can reach: clicks on product cards, starting from none.\<close>

definition selection_after :: "int list \<Rightarrow> int list" where
  "selection_after clicks = foldl (\<lambda>sel productId. handleProductSelection_update productId sel) [] clicks"

definition handleCompare_request :: "comparison_view \<Rightarrow> request" where
  "handleCompare_request s =
     PostProductsCompare (selectedProducts s) (customerProfile s)
       (sum_assured (comparisonParams s)) (policy_term (comparisonParams s))
       (premium_frequency (comparisonParams s))"

definition handleCompare_pending :: "comparison_view \<Rightarrow> comparison_view" where
  "handleCompare_pending s = s\<lparr>loading := True, error := None\<rparr>"

definition handleCompare_settle :: "comparison_view \<Rightarrow> failure + js_value \<Rightarrow> comparison_view" where
  "handleCompare_settle s r =
     (case r of
        Inr data \<Rightarrow> s\<lparr>comparisonResult := Some data\<rparr>
      | Inl err \<Rightarrow> s\<lparr>error := Some ''Failed to compare products''\<rparr>)
     \<lparr>loading := False\<rparr>"

definition handleCompare :: "comparison_view \<Rightarrow> failure + js_value \<Rightarrow> comparison_view \<times> effect list" where
  "handleCompare s r =
     (if length (selectedProducts s) < 2 then
        (s\<lparr>error := Some ''Please select at least 2 products to compare''\<rparr>, [])
      else
        (handleCompare_settle (handleCompare_pending s) r, [Request (handleCompare_request s)]))"

text \<open>The compare button, \<open>disabled={loading || selectedProducts.length < 2}\<close>.\<close>

definition compare_disabled :: "comparison_view \<Rightarrow> bool" where
  "compare_disabled s \<longleftrightarrow> loading s \<or> length (selectedProducts s) < 2"

definition compare_click :: "comparison_view \<Rightarrow> failure + js_value \<Rightarrow> comparison_view \<times> effect list" where
  "compare_click s r = (if compare_disabled s then (s, []) else handleCompare s r)"

section \<open>MarketData\<close>

record market_view = view_state +
  activeTab :: string
  marketData :: "js_value list"
  trends :: "js_value option"
  insights :: "js_value option"

definition fetchMarketData_pending :: "market_view \<Rightarrow> market_view" where
  "fetchMarketData_pending s = s\<lparr>loading := True, error := None\<rparr>"

text \<open>The \<open>catch\<close> and \<open>finally\<close> blocks.\<close>

definition fetchMarketData_catch :: "market_view \<Rightarrow> failure \<Rightarrow> market_view" where
  "fetchMarketData_catch s err =
     s\<lparr>error := Some ''Failed to fetch market data. Please try again later.'',
       loading := False\<rparr>"

text \<open>
  The three awaits of the one \<open>try\<close> block, in order; \<open>r1\<close>, \<open>r2\<close> and \<open>r3\<close> are the
  outcomes of the requests for latest, trends and insights. A request after a failed one
  is never sent.
\<close>

definition fetchMarketData ::
  "market_view \<Rightarrow> failure + js_value list \<Rightarrow> failure + js_value \<Rightarrow> failure + js_value \<Rightarrow> market_view \<times> effect list" where
  "fetchMarketData s r1 r2 r3 =
     (let s0 = fetchMarketData_pending s in
      case r1 of
        Inl err \<Rightarrow> (fetchMarketData_catch s0 err, [Request GetMarketDataLatest])
      | Inr latest \<Rightarrow>
          (let s1 = s0\<lparr>marketData := latest\<rparr> in
           case r2 of
             Inl err \<Rightarrow>
               (fetchMarketData_catch s1 err,
                [Request GetMarketDataLatest, Request GetMarketDataTrends])
           | Inr tr \<Rightarrow>
               (let s2 = s1\<lparr>trends := Some tr\<rparr> in
                case r3 of
                  Inl err \<Rightarrow>
                    (fetchMarketData_catch s2 err,
                     [Request GetMarketDataLatest, Request GetMarketDataTrends,
                      Request GetMarketDataInsights])
                | Inr ins \<Rightarrow>
                    (s2\<lparr>insights := Some ins, loading := False\<rparr>,
                     [Request GetMarketDataLatest, Request GetMarketDataTrends,
                      Request GetMarketDataInsights]))))"

section \<open>PDFReports\<close>

text \<open>The component's own \<open>Customer\<close> interface; field \<open>x\<close> is \<open>pdf_x\<close>.\<close>

record pdf_customer =
  pdf_id :: int
  pdf_name :: string
  pdf_email :: string
  pdf_age :: int
  pdf_annual_income :: int
  pdf_family_size :: int

record pdf_view = view_state +
  customers :: "pdf_customer list"
  selectedCustomer :: "int option"
  success :: "string option"

definition fetchCustomers_pending :: "pdf_view \<Rightarrow> pdf_view" where
  "fetchCustomers_pending s = s\<lparr>loading := True\<rparr>"

definition fetchCustomers_settle :: "pdf_view \<Rightarrow> failure + pdf_customer list \<Rightarrow> pdf_view" where
  "fetchCustomers_settle s r =
     (case r of
        Inr data \<Rightarrow> s\<lparr>customers := data\<rparr>
      | Inl err \<Rightarrow> s\<lparr>error := Some ''Failed to fetch customers''\<rparr>)
     \<lparr>loading := False\<rparr>"

definition fetchCustomers :: "pdf_view \<Rightarrow> failure + pdf_customer list \<Rightarrow> pdf_view \<times> effect list" where
  "fetchCustomers s r = (fetchCustomers_settle (fetchCustomers_pending s) r, [Request GetCustomers])"

text \<open>
  The regular expression class \<open>\s\<close> on the code units a \<open>char\<close> can hold: tab, line feed,
  vertical tab, form feed, carriage return, space and no-break space. (The further
  members of the class lie above U+00FF.)
\<close>

definition is_space :: "char \<Rightarrow> bool" where
  "is_space c \<longleftrightarrow> (let n = (of_char c :: nat) in
     n = 9 \<or> n = 10 \<or> n = 11 \<or> n = 12 \<or> n = 13 \<or> n = 32 \<or> n = 160)"

text \<open>
  \<open>s.replace(/\s+/g, '_')\<close>: from the left, each longest run of whitespace is matched
  once and gives one underscore.
\<close>

function replace_ws :: "string \<Rightarrow> string" where
  "replace_ws [] = []"
| "replace_ws (c # cs) =
     (if is_space c then CHR ''_'' # replace_ws (dropWhile is_space cs)
      else c # replace_ws cs)"
  by pat_completeness auto
termination
  by (relation "measure length") (auto simp: le_imp_less_Suc length_dropWhile_le)

text \<open>\<open>s.replace(a, b)\<close> with one-character strings: the first occurrence only.\<close>

fun replace_first :: "char \<Rightarrow> char \<Rightarrow> string \<Rightarrow> string" where
  "replace_first a b [] = []"
| "replace_first a b (c # cs) = (if c = a then b # cs else c # replace_first a b cs)"

text \<open>
  The instant \<open>new Date()\<close> in UTC, and \<open>toISOString()\<close>:
  \<open>YYYY-MM-DDTHH:mm:ss.sssZ\<close>, with the six-digit signed year for years above 9999.
\<close>

record utc_time =
  utc_year :: nat
  utc_month :: nat
  utc_day :: nat
  utc_hours :: nat
  utc_minutes :: nat
  utc_seconds :: nat
  utc_milliseconds :: nat

definition digit :: "nat \<Rightarrow> char" where
  "digit n =
     (let d = n mod 10 in
      if d = 0 then CHR ''0'' else if d = 1 then CHR ''1'' else if d = 2 then CHR ''2''
      else if d = 3 then CHR ''3'' else if d = 4 then CHR ''4'' else if d = 5 then CHR ''5''
      else if d = 6 then CHR ''6'' else if d = 7 then CHR ''7'' else if d = 8 then CHR ''8''
      else CHR ''9'')"

definition pad2 :: "nat \<Rightarrow> string" where
  "pad2 n = [digit (n div 10), digit n]"

definition pad3 :: "nat \<Rightarrow> string" where
  "pad3 n = [digit (n div 100), digit (n div 10), digit n]"

definition pad4 :: "nat \<Rightarrow> string" where
  "pad4 n = [digit (n div 1000), digit (n div 100), digit (n div 10), digit n]"

definition isoYear :: "nat \<Rightarrow> string" where
  "isoYear y = (if y \<le> 9999 then pad4 y else ''+'' @ pad2 (y div 10000) @ pad4 y)"

definition isoDate :: "utc_time \<Rightarrow> string" where
  "isoDate t = isoYear (utc_year t) @ ''-'' @ pad2 (utc_month t) @ ''-'' @ pad2 (utc_day t)"

definition toISOString :: "utc_time \<Rightarrow> string" where
  "toISOString t =
     isoDate t @ ''T'' @ pad2 (utc_hours t) @ '':'' @ pad2 (utc_minutes t) @ '':'' @
     pad2 (utc_seconds t) @ ''.'' @ pad3 (utc_milliseconds t) @ ''Z''"

text \<open>\<open>s.split('T')[0]\<close>\<close>

definition split_T_0 :: "string \<Rightarrow> string" where
  "split_T_0 s = takeWhile (\<lambda>c. c \<noteq> CHR ''T'') s"

text \<open>
  The name given to the saved file, from the customers and the selection the handler
  was called with.
\<close>

definition download_name :: "utc_time \<Rightarrow> pdf_customer list \<Rightarrow> int \<Rightarrow> string \<Rightarrow> string" where
  "download_name now cs sel reportType =
     (let customerName =
            (case find (\<lambda>c. pdf_id c = sel) cs of
               Some c \<Rightarrow> replace_ws (pdf_name c)
             | None \<Rightarrow> ''customer'');
          timestamp = split_T_0 (toISOString now)
      in if reportType = ''needs-analysis''
         then ''needs_analysis_'' @ customerName @ ''_'' @ timestamp @ ''.pdf''
         else ''comprehensive_report_'' @ customerName @ ''_'' @ timestamp @ ''.pdf'')"

definition generatePDF_pending :: "pdf_view \<Rightarrow> pdf_view" where
  "generatePDF_pending s = s\<lparr>loading := True, error := None, success := None\<rparr>"

definition generatePDF_catch :: "pdf_view \<Rightarrow> blob_failure \<Rightarrow> pdf_view" where
  "generatePDF_catch s err =
     s\<lparr>error := Some (or_else (detail err) ''Failed to generate PDF''), loading := False\<rparr>"

text \<open>
  \<open>generatePDF\<close>; \<open>!selectedCustomer\<close> holds for \<open>null\<close> and for the id 0. \<open>r\<close> is the
  outcome of the one request; an unknown report type throws before any request.
\<close>

definition generatePDF :: "utc_time \<Rightarrow> pdf_view \<Rightarrow> string \<Rightarrow> blob_failure + blob \<Rightarrow> pdf_view \<times> effect list" where
  "generatePDF now s reportType r =
     (case selectedCustomer s of
        None \<Rightarrow> (s, [])
      | Some sel \<Rightarrow>
          if sel = 0 then (s, [])
          else
            (let s0 = generatePDF_pending s in
             if reportType = ''needs-analysis'' \<or> reportType = ''comprehensive'' then
               (let req = (if reportType = ''needs-analysis'' then GetPdfNeedsAnalysis sel
                           else GetPdfComprehensiveReport sel) in
                case r of
                  Inr data \<Rightarrow>
                    (s0\<lparr>success := Some (replace_first CHR ''-'' CHR '' '' reportType @
                                         '' PDF generated successfully!''),
                        loading := False\<rparr>,
                     [Request req, Download (download_name now (customers s) sel reportType) data])
                | Inl err \<Rightarrow> (generatePDF_catch s0 err, [Request req]))
             else (generatePDF_catch s0 (Thrown ''Invalid report type''), [])))"

text \<open>Both generate buttons, \<open>disabled={loading}\<close>.\<close>

definition generate_disabled :: "pdf_view \<Rightarrow> bool" where
  "generate_disabled s = loading s"

definition generate_click :: "utc_time \<Rightarrow> pdf_view \<Rightarrow> string \<Rightarrow> blob_failure + blob \<Rightarrow> pdf_view \<times> effect list" where
  "generate_click now s reportType r =
     (if generate_disabled s then (s, []) else generatePDF now s reportType r)"

section \<open>InflationCalculator\<close>

record inflation_view = view_state +
  formData :: inflation_form
  result :: "js_value option"

definition InflationCalculator_handleSubmit_pending :: "inflation_view \<Rightarrow> inflation_view" where
  "InflationCalculator_handleSubmit_pending s = s\<lparr>loading := True, error := None\<rparr>"

definition InflationCalculator_handleSubmit_settle :: "inflation_view \<Rightarrow> failure + js_value \<Rightarrow> inflation_view" where
  "InflationCalculator_handleSubmit_settle s r =
     (case r of
        Inr data \<Rightarrow> s\<lparr>result := Some data\<rparr>
      | Inl err \<Rightarrow>
          s\<lparr>error := Some ''Failed to calculate inflation-adjusted returns. Please try again.''\<rparr>)
     \<lparr>loading := False\<rparr>"

definition InflationCalculator_handleSubmit :: "inflation_view \<Rightarrow> failure + js_value \<Rightarrow> inflation_view \<times> effect list" where
  "InflationCalculator_handleSubmit s r =
     (InflationCalculator_handleSubmit_settle (InflationCalculator_handleSubmit_pending s) r,
      [Request (PostInflationAdjustedReturns (formData s))])"

text \<open>The submit button, \<open>disabled={loading}\<close>.\<close>

definition calculate_disabled :: "inflation_view \<Rightarrow> bool" where
  "calculate_disabled s = loading s"

definition calculate_click :: "inflation_view \<Rightarrow> failure + js_value \<Rightarrow> inflation_view \<times> effect list" where
  "calculate_click s r =
     (if calculate_disabled s then (s, []) else InflationCalculator_handleSubmit s r)"

section \<open>services/api.ts: createNeedsAnalysis\<close>

definition calculatorInput :: "customer \<Rightarrow> calculator_input" where
  "calculatorInput c =
     \<lparr>in_customer_id = cust_id c,
      in_calculation_type = ''comprehensive'',
      in_age = age c,
      in_gender = gender c,
      in_annual_income = annual_income c,
      in_family_size = family_size c,
      in_dependents = dependents c,
      in_existing_coverage = js_or (opt_member (existing_insurance c) ''total'') (Num 0),
      in_debt_obligations = 0,
      in_children_education_needs = 0,
      in_retirement_needs = 0,
      in_inflation_rate = 6.0,
      in_return_rate = 8.0\<rparr>"

text \<open>
  \<open>rGet\<close> is the outcome of the customer fetch and \<open>rPost\<close> of the post; a rejected fetch
  rejects the call before anything is posted.
\<close>

definition createNeedsAnalysis ::
  "int \<Rightarrow> failure + customer \<Rightarrow> failure + js_value \<Rightarrow> (failure + js_value) \<times> effect list" where
  "createNeedsAnalysis customerId rGet rPost =
     (case rGet of
        Inl err \<Rightarrow> (Inl err, [Request (GetCustomerById customerId)])
      | Inr c \<Rightarrow>
          (rPost, [Request (GetCustomerById customerId), Request (PostNeedsAnalysis (calculatorInput c))]))"

section \<open>NeedsAnalysis, Recommendations and AnalyticsDashboard\<close>

record needs_view = view_state +
  data :: "js_value option"

text \<open>
  The first \<open>try\<close> swallows a rejected \<open>createNeedsAnalysis\<close> ("Ignore error if already
  exists"); the second fetches what is shown.
\<close>

definition createAndFetchNeedsAnalysis ::
  "needs_view \<Rightarrow> int \<Rightarrow> failure + customer \<Rightarrow> failure + js_value \<Rightarrow> failure + js_value \<Rightarrow> needs_view \<times> effect list" where
  "createAndFetchNeedsAnalysis s customerId rGet rPost rFetch =
     (let s0 = s\<lparr>loading := True\<rparr>;
          created = createNeedsAnalysis customerId rGet rPost;
          s1 = (case rFetch of
                  Inr res \<Rightarrow> s0\<lparr>data := Some res\<rparr>
                | Inl err \<Rightarrow> s0\<lparr>error := Some ''Failed to fetch needs analysis''\<rparr>)
      in (s1\<lparr>loading := False\<rparr>,
          snd created @ [Request (GetNeedsAnalysisEnhanced customerId)]))"

text \<open>\<open>if (error || !data)\<close> shows \<open>error || 'Failed to load needs analysis'\<close>.\<close>

definition NeedsAnalysis_render :: "needs_view \<Rightarrow> screen" where
  "NeedsAnalysis_render s =
     (if loading s then LoadingIndicator
      else if error_shown s \<noteq> None \<or> (case data s of None \<Rightarrow> True | Some v \<Rightarrow> \<not> truthy v)
           then ErrorPanel (or_else (error s) ''Failed to load needs analysis'')
           else Content)"

record recommendations_view = view_state +
  recommendations :: "js_value list"

definition fetchRecommendations_pending :: "recommendations_view \<Rightarrow> recommendations_view" where
  "fetchRecommendations_pending s = s\<lparr>loading := True\<rparr>"

definition fetchRecommendations_settle :: "recommendations_view \<Rightarrow> failure + js_value list \<Rightarrow> recommendations_view" where
  "fetchRecommendations_settle s r =
     (case r of
        Inr d \<Rightarrow> s\<lparr>recommendations := d\<rparr>
      | Inl err \<Rightarrow> s\<lparr>error := Some ''Failed to fetch recommendations''\<rparr>)
     \<lparr>loading := False\<rparr>"

definition fetchRecommendations :: "recommendations_view \<Rightarrow> int \<Rightarrow> failure + js_value list \<Rightarrow> recommendations_view \<times> effect list" where
  "fetchRecommendations s customerId r =
     (fetchRecommendations_settle (fetchRecommendations_pending s) r,
      [Request (PostRecommendationsGenerate customerId)])"

record analytics_view = view_state +
  metrics :: "js_value option"
  selectedPeriod :: string

definition fetchDashboardData_pending :: "analytics_view \<Rightarrow> analytics_view" where
  "fetchDashboardData_pending s = s\<lparr>loading := True, error := None\<rparr>"

definition fetchDashboardData_settle :: "analytics_view \<Rightarrow> failure + js_value \<Rightarrow> analytics_view" where
  "fetchDashboardData_settle s r =
     (case r of
        Inr d \<Rightarrow> s\<lparr>metrics := Some d\<rparr>
      | Inl err \<Rightarrow> s\<lparr>error := Some ''Failed to fetch dashboard data. Please try again.''\<rparr>)
     \<lparr>loading := False\<rparr>"

definition fetchDashboardData :: "analytics_view \<Rightarrow> failure + js_value \<Rightarrow> analytics_view \<times> effect list" where
  "fetchDashboardData s r =
     (fetchDashboardData_settle (fetchDashboardData_pending s) r,
      [Request (GetAnalyticsDashboard (selectedPeriod s))])"

section \<open>Initial states\<close>

text \<open>The arguments of the \<open>useState\<close> calls of each component.\<close>

definition CustomerForm_initial :: customer where
  "CustomerForm_initial =
     \<lparr>cust_id = None, name = [], email = [], phone = [], date_of_birth = [], age = None,
      gender = ''male'', occupation = [], annual_income = Finite 0, family_size = Finite 1,
      dependents = Finite 0,
      existing_insurance = Obj [], health_conditions = [], lifestyle_factors = [],
      risk_appetite = ''low'', investment_goals = []\<rparr>"

definition App_initial :: app_state where
  "App_initial =
     \<lparr>loading = False, message = None, currentView = ''customer'', currentCustomerId = None\<rparr>"

definition ProductsList_initial :: products_view where
  "ProductsList_initial = \<lparr>loading = True, error = None, products = []\<rparr>"

definition ProductComparison_initial :: comparison_view where
  "ProductComparison_initial =
     \<lparr>loading = False, error = None, products = [], selectedProducts = [],
      customerProfile = \<lparr>profile_age = 30, profile_gender = ''male'',
                         profile_annual_income = 1000000, profile_risk_appetite = ''medium''\<rparr>,
      comparisonParams = \<lparr>sum_assured = 5000000, policy_term = 20,
                          premium_frequency = ''yearly''\<rparr>,
      comparisonResult = None\<rparr>"

definition MarketData_initial :: market_view where
  "MarketData_initial =
     \<lparr>loading = True, error = None, activeTab = ''overview'', marketData = [],
      trends = None, insights = None\<rparr>"

definition PDFReports_initial :: pdf_view where
  "PDFReports_initial =
     \<lparr>loading = False, error = None, customers = [], selectedCustomer = None, success = None\<rparr>"

definition InflationCalculator_initial :: inflation_view where
  "InflationCalculator_initial =
     \<lparr>loading = False, error = None,
      formData = \<lparr>initial_investment = 100000, monthly_contribution = 10000,
                  investment_period_years = 20, expected_return_rate = 8.0,
                  inflation_rate = 6.0, investment_frequency = ''monthly''\<rparr>,
      result = None\<rparr>"

definition NeedsAnalysis_initial :: needs_view where
  "NeedsAnalysis_initial = \<lparr>loading = True, error = None, data = None\<rparr>"

definition Recommendations_initial :: recommendations_view where
  "Recommendations_initial = \<lparr>loading = True, error = None, recommendations = []\<rparr>"

definition AnalyticsDashboard_initial :: analytics_view where
  "AnalyticsDashboard_initial =
     \<lparr>loading = True, error = None, metrics = None, selectedPeriod = ''30d''\<rparr>"

section \<open>Theorems\<close>

subsection \<open>Age from the date of birth\<close>

lemma completed_years_nonneg_iff:
  "0 \<le> spec_completed_years today b \<longleftrightarrow> date_le b today"
  by (auto simp: spec_completed_years_def before_in_year_def date_le_def)

lemma completed_years_floor:
  "date_le (add_years n b) today \<longleftrightarrow> n \<le> spec_completed_years today b"
  by (auto simp: spec_completed_years_def before_in_year_def date_le_def add_years_def)

lemma iso_date_nonempty: "iso_date dob = Some b \<Longrightarrow> dob \<noteq> []"
  by (auto simp: iso_date_def)

lemma new_Date_east: "iso_date dob = Some b \<Longrightarrow> 0 \<le> tz \<Longrightarrow> new_Date tz other dob = Some b"
  by (simp add: new_Date_def)

lemma calculateAge_eq:
  "calculateAge tz other today dob =
     (if dob = [] then None
      else case new_Date tz other dob of
        None \<Rightarrow> None
      | Some b \<Rightarrow> if date_le b today then Some (spec_completed_years today b) else None)"
  by (auto simp: calculateAge_def spec_completed_years_def before_in_year_def date_le_def Let_def
           split: option.splits)

lemma calculateAge_east:
  "iso_date dob = Some b \<Longrightarrow> 0 \<le> tz \<Longrightarrow>
   calculateAge tz other today dob =
     (if date_le b today then Some (spec_completed_years today b) else None)"
  using iso_date_nonempty [of dob b] by (simp add: calculateAge_eq new_Date_east)

lemma handleInputChange_dob:
  "handleInputChange tz other today parseInt ''date_of_birth'' v prev =
     prev\<lparr>date_of_birth := v, age := calculateAge tz other today v\<rparr>"
  by (simp add: handleInputChange_def)

text \<open>
  West of UTC the day that the getters read is the day before the one typed: on
  3 November 2026, at five hours behind UTC, the date of birth 1990-11-04 gives 36,
  a day before the 36th birthday.
\<close>

lemma calculateAge_west_of_UTC_instance:
  "iso_date ''1990-11-04'' = Some \<lparr>fullYear = 1990, month = 10, date = 4\<rparr> \<and>
   calculateAge (- 300) other \<lparr>fullYear = 2026, month = 10, date = 3\<rparr> ''1990-11-04'' = Some 36 \<and>
   spec_completed_years \<lparr>fullYear = 2026, month = 10, date = 3\<rparr> \<lparr>fullYear = 1990, month = 10, date = 4\<rparr> = 35"
  by (simp add: calculateAge_def new_Date_def iso_date_def is_digit_def digits_value_def
                days_in_month_def day_before_def spec_completed_years_def before_in_year_def)

text \<open>
  C1, as stated: for every date-of-birth string and every current date, the age that
  \<open>calculateAge\<close> computes is the difference of the calendar years, less one exactly when
  the current month and day fall before the birth month and day. It fails for a date of
  birth after the current date: the code answers \<open>null\<close>, not the negative difference.
\<close>

theorem calculateAge_future_counterexample:
  "iso_date ''2027-01-15'' = Some \<lparr>fullYear = 2027, month = 0, date = 15\<rparr> \<and>
   calculateAge 0 (map_of []) \<lparr>fullYear = 2026, month = 10, date = 3\<rparr> ''2027-01-15''
   \<noteq> Some (spec_completed_years \<lparr>fullYear = 2026, month = 10, date = 3\<rparr>
                                  \<lparr>fullYear = 2027, month = 0, date = 15\<rparr>)"
  by (simp add: calculateAge_def new_Date_def iso_date_def is_digit_def digits_value_def
                days_in_month_def)

text \<open>
  C1, amended: for a date-of-birth string \<open>YYYY-MM-DD\<close> that names a calendar date not
  after the current date, entered in a time zone at or east of UTC, \<open>calculateAge\<close>
  returns the difference of the calendar years, less one exactly when the current month
  and day fall before the birth month and day; this is the number of completed years
  (the last anniversary not after today), it is what \<open>handleInputChange\<close> stores as \<open>age\<close>
  and what the form displays. For a birth date after the current date (in those zones)
  and for a non-empty string that is not a date, \<open>calculateAge\<close> returns \<open>null\<close>, the
  stored \<open>age\<close> is undefined and the form shows \<open>--\<close> for the age. For the empty string
  \<open>calculateAge\<close> returns \<open>null\<close>, the stored \<open>age\<close> is undefined and the form shows no
  age line. (Nothing is said for time zones west of UTC.)
\<close>

theorem calculateAge_completed_years:
  "(iso_date dob = Some b \<and> 0 \<le> tz \<and> date_le b today \<longrightarrow>
      calculateAge tz other today dob = Some (spec_completed_years today b) \<and>
      spec_completed_years today b =
        fullYear today - fullYear b - (if before_in_year today b then 1 else 0) \<and>
      0 \<le> spec_completed_years today b \<and>
      date_le (add_years (spec_completed_years today b) b) today \<and>
      \<not> date_le (add_years (spec_completed_years today b + 1) b) today \<and>
      age (handleInputChange tz other today parseInt ''date_of_birth'' dob prev)
        = Some (spec_completed_years today b) \<and>
      ageDisplay (handleInputChange tz other today parseInt ''date_of_birth'' dob prev)
        = Some (Inl (spec_completed_years today b))) \<and>
   ((iso_date dob = Some b \<and> 0 \<le> tz \<and> \<not> date_le b today) \<or>
    (dob \<noteq> [] \<and> iso_date dob = None \<and> other dob = None) \<longrightarrow>
      calculateAge tz other today dob = None \<and>
      age (handleInputChange tz other today parseInt ''date_of_birth'' dob prev) = None \<and>
      ageDisplay (handleInputChange tz other today parseInt ''date_of_birth'' dob prev)
        = Some (Inr ''--'')) \<and>
   calculateAge tz other today [] = None \<and>
   age (handleInputChange tz other today parseInt ''date_of_birth'' [] prev) = None \<and>
   ageDisplay (handleInputChange tz other today parseInt ''date_of_birth'' [] prev) = None"
proof -
  have floor_up: "date_le (add_years (spec_completed_years today b) b) today"
    by (simp add: completed_years_floor)
  have floor_next: "\<not> date_le (add_years (spec_completed_years today b + 1) b) today"
    by (simp add: completed_years_floor)
  have formula: "spec_completed_years today b =
      fullYear today - fullYear b - (if before_in_year today b then 1 else 0)"
    by (simp add: spec_completed_years_def)
  have nonneg: "date_le b today \<Longrightarrow> 0 \<le> spec_completed_years today b"
    by (simp add: completed_years_nonneg_iff)
  have typed: "iso_date dob = Some b \<Longrightarrow> 0 \<le> tz \<Longrightarrow>
      calculateAge tz other today dob =
        (if date_le b today then Some (spec_completed_years today b) else None)"
    by (rule calculateAge_east)
  have typed_ne: "iso_date dob = Some b \<Longrightarrow> dob \<noteq> []"
    by (rule iso_date_nonempty)
  have not_a_date: "dob \<noteq> [] \<Longrightarrow> iso_date dob = None \<Longrightarrow> other dob = None \<Longrightarrow>
      calculateAge tz other today dob = None"
    by (simp add: calculateAge_eq new_Date_def)
  have empty: "calculateAge tz other today [] = None"
    by (simp add: calculateAge_eq)
  have first: "iso_date dob = Some b \<and> 0 \<le> tz \<and> date_le b today \<longrightarrow>
      calculateAge tz other today dob = Some (spec_completed_years today b) \<and>
      spec_completed_years today b =
        fullYear today - fullYear b - (if before_in_year today b then 1 else 0) \<and>
      0 \<le> spec_completed_years today b \<and>
      date_le (add_years (spec_completed_years today b) b) today \<and>
      \<not> date_le (add_years (spec_completed_years today b + 1) b) today \<and>
      age (handleInputChange tz other today parseInt ''date_of_birth'' dob prev)
        = Some (spec_completed_years today b) \<and>
      ageDisplay (handleInputChange tz other today parseInt ''date_of_birth'' dob prev)
        = Some (Inl (spec_completed_years today b))"
    using floor_up floor_next formula nonneg typed typed_ne
    by (simp add: handleInputChange_dob ageDisplay_def)
  have second: "(iso_date dob = Some b \<and> 0 \<le> tz \<and> \<not> date_le b today) \<or>
      (dob \<noteq> [] \<and> iso_date dob = None \<and> other dob = None) \<longrightarrow>
      calculateAge tz other today dob = None \<and>
      age (handleInputChange tz other today parseInt ''date_of_birth'' dob prev) = None \<and>
      ageDisplay (handleInputChange tz other today parseInt ''date_of_birth'' dob prev)
        = Some (Inr ''--'')"
    using typed typed_ne not_a_date
    by (auto simp: handleInputChange_dob ageDisplay_def)
  have third: "age (handleInputChange tz other today parseInt ''date_of_birth'' [] prev) = None \<and>
      ageDisplay (handleInputChange tz other today parseInt ''date_of_birth'' [] prev) = None"
    using empty by (simp add: handleInputChange_dob ageDisplay_def)
  from first second empty third show ?thesis by blast
qed

theorem calculateAge_completed_years_witness:
  "iso_date ''1990-11-04'' = Some \<lparr>fullYear = 1990, month = 10, date = 4\<rparr> \<and>
   date_le \<lparr>fullYear = 1990, month = 10, date = 4\<rparr> \<lparr>fullYear = 2026, month = 10, date = 3\<rparr> \<and>
   calculateAge 330 (map_of []) \<lparr>fullYear = 2026, month = 10, date = 3\<rparr> ''1990-11-04'' = Some 35 \<and>
   ageDisplay (handleInputChange 330 (map_of []) \<lparr>fullYear = 2026, month = 10, date = 3\<rparr> (\<lambda>v. NaN) ''date_of_birth'' ''1990-11-04''
                 CustomerForm_initial) = Some (Inl 35) \<and>
   iso_date ''2027-01-15'' = Some \<lparr>fullYear = 2027, month = 0, date = 15\<rparr> \<and>
   \<not> date_le \<lparr>fullYear = 2027, month = 0, date = 15\<rparr> \<lparr>fullYear = 2026, month = 10, date = 3\<rparr> \<and>
   calculateAge 330 (map_of []) \<lparr>fullYear = 2026, month = 10, date = 3\<rparr> ''2027-01-15'' = None \<and>
   ageDisplay (handleInputChange 330 (map_of []) \<lparr>fullYear = 2026, month = 10, date = 3\<rparr> (\<lambda>v. NaN) ''date_of_birth'' ''2027-01-15''
                 CustomerForm_initial) = Some (Inr ''--'')"
  using calculateAge_completed_years
    [of "''1990-11-04''" "\<lparr>fullYear = 1990, month = 10, date = 4\<rparr>" 330 "\<lparr>fullYear = 2026, month = 10, date = 3\<rparr>" "map_of []" "\<lambda>v. NaN" CustomerForm_initial]
        calculateAge_completed_years
    [of "''2027-01-15''" "\<lparr>fullYear = 2027, month = 0, date = 15\<rparr>" 330 "\<lparr>fullYear = 2026, month = 10, date = 3\<rparr>" "map_of []" "\<lambda>v. NaN" CustomerForm_initial]
  by (simp add: date_le_def spec_completed_years_def before_in_year_def iso_date_def
                is_digit_def digits_value_def days_in_month_def)

subsection \<open>Selecting products to compare\<close>

lemma toggle_distinct:
  "distinct prev \<Longrightarrow> distinct (handleProductSelection_update productId prev)"
  by (simp add: handleProductSelection_update_def)

lemma foldl_toggle_distinct:
  "distinct sel \<Longrightarrow>
   distinct (foldl (\<lambda>sel productId. handleProductSelection_update productId sel) sel clicks)"
  by (induction clicks arbitrary: sel) (simp_all add: toggle_distinct)

lemma selection_after_distinct: "distinct (selection_after clicks)"
  by (simp add: selection_after_def foldl_toggle_distinct)

lemma toggle_twice_absent:
  "productId \<notin> set prev \<Longrightarrow>
   handleProductSelection_update productId (handleProductSelection_update productId prev) = prev"
  by (auto simp: handleProductSelection_update_def filter_id_conv)

lemma toggle_twice_present:
  "productId \<in> set prev \<Longrightarrow>
   handleProductSelection_update productId (handleProductSelection_update productId prev)
     = filter (\<lambda>i. i \<noteq> productId) prev @ [productId]"
  by (simp add: handleProductSelection_update_def)

lemma toggle_twice_set:
  "set (handleProductSelection_update productId (handleProductSelection_update productId prev))
     = set prev"
  by (cases "productId \<in> set prev") (auto simp: toggle_twice_absent toggle_twice_present)

text \<open>
  C10, as stated: applying \<open>handleProductSelection\<close> twice with the same id to any
  selection restores the original selection. The selection is a list, sent to the backend
  in its order, and a selected id that is toggled twice comes back at the end.
\<close>

theorem handleProductSelection_twice_counterexample:
  "handleProductSelection_update 1 (handleProductSelection_update 1 [1, 2]) \<noteq> [1, 2]"
  by (simp add: handleProductSelection_update_def)

text \<open>
  C10, amended: \<open>handleProductSelection\<close> toggles membership of a product id in the
  selected-products list: a present id is removed, an absent id is appended. Applying it
  twice with the same id restores the set of selected ids; it restores the list itself
  when the id was not selected, and moves the id to the end when it was. Every selection
  reachable from the empty list contains no duplicate ids.
\<close>

theorem handleProductSelection_toggle:
  "(productId \<in> set (selectedProducts s) \<longrightarrow>
      selectedProducts (handleProductSelection productId s)
        = filter (\<lambda>i. i \<noteq> productId) (selectedProducts s) \<and>
      productId \<notin> set (selectedProducts (handleProductSelection productId s)) \<and>
      selectedProducts (handleProductSelection productId (handleProductSelection productId s))
        = filter (\<lambda>i. i \<noteq> productId) (selectedProducts s) @ [productId]) \<and>
   (productId \<notin> set (selectedProducts s) \<longrightarrow>
      selectedProducts (handleProductSelection productId s) = selectedProducts s @ [productId] \<and>
      selectedProducts (handleProductSelection productId (handleProductSelection productId s))
        = selectedProducts s) \<and>
   set (selectedProducts (handleProductSelection productId (handleProductSelection productId s)))
     = set (selectedProducts s) \<and>
   distinct (selection_after clicks)"
  using toggle_twice_set [of productId "selectedProducts s"]
        toggle_twice_absent [of productId "selectedProducts s"]
        toggle_twice_present [of productId "selectedProducts s"]
        selection_after_distinct [of clicks]
  by (simp add: handleProductSelection_def) (simp add: handleProductSelection_update_def)

theorem handleProductSelection_toggle_witness:
  "selectedProducts
     (handleProductSelection 1
        (handleProductSelection 1 (ProductComparison_initial\<lparr>selectedProducts := [1, 2]\<rparr>)))
     = [2, 1] \<and>
   selectedProducts
     (handleProductSelection 3
        (handleProductSelection 3 (ProductComparison_initial\<lparr>selectedProducts := [1, 2]\<rparr>)))
     = [1, 2] \<and>
   distinct (selection_after [1, 2, 3, 2, 1, 1])"
  using handleProductSelection_toggle
          [of 1 "ProductComparison_initial\<lparr>selectedProducts := [1, 2]\<rparr>" "[1, 2, 3, 2, 1, 1]"]
        handleProductSelection_toggle
          [of 3 "ProductComparison_initial\<lparr>selectedProducts := [1, 2]\<rparr>" "[1, 2, 3, 2, 1, 1]"]
  by simp

subsection \<open>Submitting the customer form\<close>

lemma handleCustomerSubmit_success:
  "fst (handleCustomerSubmit s c (Inr saved)) =
     s\<lparr>loading := False,
       message := Some (''success'', ''Customer saved successfully! Generating needs analysis...''),
       currentView := ''needs-analysis'', currentCustomerId := cust_id saved\<rparr>"
  by (simp add: handleCustomerSubmit_def handleCustomerSubmit_settle_def
                handleCustomerSubmit_pending_def)

lemma submitCustomerForm_submittable:
  "submittable draft \<Longrightarrow> submitCustomerForm s draft r = handleCustomerSubmit s draft r"
  by (simp add: submitCustomerForm_def CustomerForm_handleSubmit_def)

text \<open>
  C2: for every customer draft in which name, email, phone, date_of_birth and age are all
  present, submitting the form issues exactly one customer-creation request (and nothing
  else), carrying the draft; when that request succeeds the application shows the
  needs-analysis view, \<open>currentCustomerId\<close> is the id of the customer the backend
  returned, and the busy flag is cleared.
\<close>

theorem submit_wellformed_draft:
  "name draft \<noteq> [] \<and> email draft \<noteq> [] \<and> phone draft \<noteq> [] \<and>
   date_of_birth draft \<noteq> [] \<and> age draft \<noteq> None \<Longrightarrow>
     snd (submitCustomerForm s draft r) = [Request (PostCustomers draft)] \<and>
     length (filter is_request (snd (submitCustomerForm s draft r))) = 1 \<and>
     (r = Inr saved \<longrightarrow>
        currentView (fst (submitCustomerForm s draft r)) = ''needs-analysis'' \<and>
        currentCustomerId (fst (submitCustomerForm s draft r)) = cust_id saved \<and>
        \<not> loading (fst (submitCustomerForm s draft r)))"
proof -
  assume wf: "name draft \<noteq> [] \<and> email draft \<noteq> [] \<and> phone draft \<noteq> [] \<and>
   date_of_birth draft \<noteq> [] \<and> age draft \<noteq> None"
  then have "submittable draft" by (simp add: submittable_def)
  then have eq: "submitCustomerForm s draft r = handleCustomerSubmit s draft r"
    by (rule submitCustomerForm_submittable)
  have reqs: "snd (handleCustomerSubmit s draft r) = [Request (PostCustomers draft)]"
    by (simp add: handleCustomerSubmit_def)
  show ?thesis
    unfolding eq using reqs by (auto simp: handleCustomerSubmit_success)
qed

theorem submit_wellformed_draft_witness:
  "snd (submitCustomerForm App_initial
          (CustomerForm_initial\<lparr>name := ''Asha Rao'', email := ''asha@example.org'',
             phone := ''5550100'', date_of_birth := ''1990-11-04'', age := Some 35\<rparr>)
          (Inr (CustomerForm_initial\<lparr>cust_id := Some 42\<rparr>)))
     = [Request (PostCustomers
          (CustomerForm_initial\<lparr>name := ''Asha Rao'', email := ''asha@example.org'',
             phone := ''5550100'', date_of_birth := ''1990-11-04'', age := Some 35\<rparr>))] \<and>
   currentView (fst (submitCustomerForm App_initial
          (CustomerForm_initial\<lparr>name := ''Asha Rao'', email := ''asha@example.org'',
             phone := ''5550100'', date_of_birth := ''1990-11-04'', age := Some 35\<rparr>)
          (Inr (CustomerForm_initial\<lparr>cust_id := Some 42\<rparr>)))) = ''needs-analysis'' \<and>
   currentCustomerId (fst (submitCustomerForm App_initial
          (CustomerForm_initial\<lparr>name := ''Asha Rao'', email := ''asha@example.org'',
             phone := ''5550100'', date_of_birth := ''1990-11-04'', age := Some 35\<rparr>)
          (Inr (CustomerForm_initial\<lparr>cust_id := Some 42\<rparr>)))) = Some 42"
  using submit_wellformed_draft
    [of "CustomerForm_initial\<lparr>name := ''Asha Rao'', email := ''asha@example.org'',
             phone := ''5550100'', date_of_birth := ''1990-11-04'', age := Some 35\<rparr>"
        App_initial "Inr (CustomerForm_initial\<lparr>cust_id := Some 42\<rparr>)"
        "CustomerForm_initial\<lparr>cust_id := Some 42\<rparr>"]
  by (simp add: CustomerForm_initial_def)

subsection \<open>The compare action\<close>

lemma handleCompare_blocked:
  "length (selectedProducts s) < 2 \<Longrightarrow>
   handleCompare s r = (s\<lparr>error := Some ''Please select at least 2 products to compare''\<rparr>, [])"
  by (simp add: handleCompare_def)

lemma handleCompare_issued:
  "2 \<le> length (selectedProducts s) \<Longrightarrow>
   snd (handleCompare s r) =
     [Request (PostProductsCompare (selectedProducts s) (customerProfile s)
        (sum_assured (comparisonParams s)) (policy_term (comparisonParams s))
        (premium_frequency (comparisonParams s)))]"
  by (simp add: handleCompare_def handleCompare_request_def)

text \<open>
  C3: with fewer than two selected products the compare button is rendered disabled, so a
  click on it does nothing; \<open>handleCompare\<close> itself sets the error message and returns
  before any request, and the comparison result (every cell but \<open>error\<close>) is as before.
  With two or more selected products \<open>handleCompare\<close> issues the comparison request for
  the selected ids, and the button, unless a comparison is running, is enabled and calls it.
\<close>

theorem handleCompare_needs_two:
  "(length (selectedProducts s) < 2 \<longrightarrow>
      compare_disabled s \<and>
      compare_click s r = (s, []) \<and>
      snd (handleCompare s r) = [] \<and>
      fst (handleCompare s r) = s\<lparr>error := Some ''Please select at least 2 products to compare''\<rparr> \<and>
      comparisonResult (fst (handleCompare s r)) = comparisonResult s) \<and>
   (2 \<le> length (selectedProducts s) \<longrightarrow>
      snd (handleCompare s r) =
        [Request (PostProductsCompare (selectedProducts s) (customerProfile s)
           (sum_assured (comparisonParams s)) (policy_term (comparisonParams s))
           (premium_frequency (comparisonParams s)))] \<and>
      (\<not> loading s \<longrightarrow> \<not> compare_disabled s \<and> compare_click s r = handleCompare s r))"
  using handleCompare_issued [of s r]
  by (simp add: handleCompare_blocked compare_disabled_def compare_click_def)

theorem handleCompare_needs_two_witness:
  "compare_disabled (ProductComparison_initial\<lparr>selectedProducts := [7]\<rparr>) \<and>
   snd (handleCompare (ProductComparison_initial\<lparr>selectedProducts := [7]\<rparr>) (Inr Null)) = [] \<and>
   snd (handleCompare (ProductComparison_initial\<lparr>selectedProducts := [7, 9]\<rparr>) (Inr Null)) =
     [Request (PostProductsCompare [7, 9]
        \<lparr>profile_age = 30, profile_gender = ''male'', profile_annual_income = 1000000,
         profile_risk_appetite = ''medium''\<rparr> 5000000 20 ''yearly'')]"
  using handleCompare_needs_two [of "ProductComparison_initial\<lparr>selectedProducts := [7]\<rparr>" "Inr Null"]
        handleCompare_needs_two [of "ProductComparison_initial\<lparr>selectedProducts := [7, 9]\<rparr>" "Inr Null"]
  by (simp add: ProductComparison_initial_def)

subsection \<open>Failed requests\<close>

lemma render_error:
  "m \<noteq> [] \<Longrightarrow> \<not> loading s \<Longrightarrow> error s = Some m \<Longrightarrow> render s = ErrorPanel m"
  by (simp add: render_def)

lemma error_shown_error:
  "m \<noteq> [] \<Longrightarrow> error s = Some m \<Longrightarrow> error_shown s = Some m"
  by (simp add: error_shown_def)

lemma ProductsList_fetchProducts_failed:
  "fst (ProductsList_fetchProducts s (Inl e)) =
     s\<lparr>loading := False, error := Some ''Failed to fetch products''\<rparr>"
  by (simp add: ProductsList_fetchProducts_def ProductsList_fetchProducts_settle_def
                ProductsList_fetchProducts_pending_def)

lemma ProductComparison_fetchProducts_failed:
  "fst (ProductComparison_fetchProducts s (Inl e)) = s\<lparr>error := Some ''Failed to fetch products''\<rparr>"
  by (simp add: ProductComparison_fetchProducts_def)

lemma handleCompare_failed:
  "2 \<le> length (selectedProducts s) \<Longrightarrow>
   fst (handleCompare s (Inl e)) = s\<lparr>loading := False, error := Some ''Failed to compare products''\<rparr>"
  by (simp add: handleCompare_def handleCompare_settle_def handleCompare_pending_def)

lemma fetchMarketData_failed_latest:
  "fst (fetchMarketData s (Inl e) r2 r3) =
     s\<lparr>loading := False, error := Some ''Failed to fetch market data. Please try again later.''\<rparr>"
  by (simp add: fetchMarketData_def fetchMarketData_pending_def fetchMarketData_catch_def)

lemma fetchMarketData_failed_trends:
  "fst (fetchMarketData s (Inr latest) (Inl e) r3) =
     s\<lparr>loading := False, error := Some ''Failed to fetch market data. Please try again later.'',
       marketData := latest\<rparr>"
  by (simp add: fetchMarketData_def fetchMarketData_pending_def fetchMarketData_catch_def)

lemma fetchMarketData_failed_insights:
  "fst (fetchMarketData s (Inr latest) (Inr tr) (Inl e)) =
     s\<lparr>loading := False, error := Some ''Failed to fetch market data. Please try again later.'',
       marketData := latest, trends := Some tr\<rparr>"
  by (simp add: fetchMarketData_def fetchMarketData_pending_def fetchMarketData_catch_def)

lemma fetchCustomers_failed:
  "fst (fetchCustomers s (Inl e)) = s\<lparr>loading := False, error := Some ''Failed to fetch customers''\<rparr>"
  by (simp add: fetchCustomers_def fetchCustomers_settle_def fetchCustomers_pending_def)

lemma InflationCalculator_handleSubmit_failed:
  "fst (InflationCalculator_handleSubmit s (Inl e)) =
     s\<lparr>loading := False,
       error := Some ''Failed to calculate inflation-adjusted returns. Please try again.''\<rparr>"
  by (simp add: InflationCalculator_handleSubmit_def InflationCalculator_handleSubmit_settle_def
                InflationCalculator_handleSubmit_pending_def)

lemma createAndFetchNeedsAnalysis_failed:
  "fst (createAndFetchNeedsAnalysis s customerId rGet rPost (Inl e)) =
     s\<lparr>loading := False, error := Some ''Failed to fetch needs analysis''\<rparr>"
  by (simp add: createAndFetchNeedsAnalysis_def)

lemma createAndFetchNeedsAnalysis_create_ignored:
  "fst (createAndFetchNeedsAnalysis s customerId rGet rPost (Inr res)) =
     s\<lparr>loading := False, data := Some res\<rparr>"
  by (simp add: createAndFetchNeedsAnalysis_def)

lemma fetchRecommendations_failed:
  "fst (fetchRecommendations s customerId (Inl e)) =
     s\<lparr>loading := False, error := Some ''Failed to fetch recommendations''\<rparr>"
  by (simp add: fetchRecommendations_def fetchRecommendations_settle_def
                fetchRecommendations_pending_def)

lemma fetchDashboardData_failed:
  "fst (fetchDashboardData s (Inl e)) =
     s\<lparr>loading := False, error := Some ''Failed to fetch dashboard data. Please try again.''\<rparr>"
  by (simp add: fetchDashboardData_def fetchDashboardData_settle_def
                fetchDashboardData_pending_def)

lemma generatePDF_failed:
  "selectedCustomer s = Some sel \<Longrightarrow> sel \<noteq> 0 \<Longrightarrow>
   fst (generatePDF now s reportType (Inl e)) =
     s\<lparr>loading := False,
       error := Some (or_else (detail (if reportType = ''needs-analysis'' \<or> reportType = ''comprehensive''
                                       then e else Thrown ''Invalid report type''))
                       ''Failed to generate PDF''),
       success := None\<rparr>"
  by (simp add: generatePDF_def generatePDF_pending_def generatePDF_catch_def Let_def)


text \<open>
  C4, as stated: in every view a failed fetch leaves the data state the view held
  unchanged, in particular in MarketData. A refresh of MarketData whose first request
  succeeds and whose second fails has already replaced the market data.
\<close>

theorem fetchMarketData_partial_counterexample:
  "marketData (fst (fetchMarketData
       \<lparr>loading = False, error = None, activeTab = ''overview'', marketData = [Num 1],
        trends = Some (Str ''old''), insights = Some (Str ''old'')\<rparr>
       (Inr [Num 2]) (Inl NoResponse) (Inl NoResponse)))
   \<noteq> marketData
       \<lparr>loading = False, error = None, activeTab = ''overview'', marketData = [Num 1],
        trends = Some (Str ''old''), insights = Some (Str ''old'')\<rparr>"
  by (simp add: fetchMarketData_def fetchMarketData_pending_def fetchMarketData_catch_def)

text \<open>
  C4, amended: when the fetch of a view fails, the component sets its error state and
  clears the busy flag, so the error panel is rendered, and the state after is the state
  before in every other cell: this holds for ProductsList, ProductComparison (the product
  list; the comparison, with the error shown inside the page), PDFReports (the
  customers), InflationCalculator, Recommendations, AnalyticsDashboard and the enhanced
  fetch of NeedsAnalysis. MarketData issues three sequential requests (latest, trends,
  insights) inside one try block: when one of them fails the error panel is rendered, the
  cells of the failed request and of the requests after it are unchanged, and the cells
  of the requests before it hold their responses (nothing is changed only when the first
  request fails). NeedsAnalysis ignores every failure of its preliminary
  \<open>createNeedsAnalysis\<close> call, of the customer fetch in it and of the post in it alike,
  and sets no error for it: whatever the outcome of that call, a successful enhanced
  fetch stores its result and changes nothing else but the loading flag.
\<close>

theorem failed_fetch_sets_error:
  "fst (ProductsList_fetchProducts s1 (Inl e)) =
     s1\<lparr>loading := False, error := Some ''Failed to fetch products''\<rparr> \<and>
   render (fst (ProductsList_fetchProducts s1 (Inl e))) = ErrorPanel ''Failed to fetch products'' \<and>
   fst (ProductComparison_fetchProducts s2 (Inl e)) = s2\<lparr>error := Some ''Failed to fetch products''\<rparr> \<and>
   error_shown (fst (ProductComparison_fetchProducts s2 (Inl e))) = Some ''Failed to fetch products'' \<and>
   (2 \<le> length (selectedProducts s2) \<longrightarrow>
      fst (handleCompare s2 (Inl e)) =
        s2\<lparr>loading := False, error := Some ''Failed to compare products''\<rparr> \<and>
      error_shown (fst (handleCompare s2 (Inl e))) = Some ''Failed to compare products'' \<and>
      comparisonResult (fst (handleCompare s2 (Inl e))) = comparisonResult s2) \<and>
   fst (fetchCustomers s3 (Inl e)) = s3\<lparr>loading := False, error := Some ''Failed to fetch customers''\<rparr> \<and>
   error_shown (fst (fetchCustomers s3 (Inl e))) = Some ''Failed to fetch customers'' \<and>
   fst (InflationCalculator_handleSubmit s4 (Inl e)) =
     s4\<lparr>loading := False,
        error := Some ''Failed to calculate inflation-adjusted returns. Please try again.''\<rparr> \<and>
   error_shown (fst (InflationCalculator_handleSubmit s4 (Inl e))) =
     Some ''Failed to calculate inflation-adjusted returns. Please try again.'' \<and>
   fst (fetchRecommendations s5 customerId (Inl e)) =
     s5\<lparr>loading := False, error := Some ''Failed to fetch recommendations''\<rparr> \<and>
   render (fst (fetchRecommendations s5 customerId (Inl e))) =
     ErrorPanel ''Failed to fetch recommendations'' \<and>
   fst (fetchDashboardData s6 (Inl e)) =
     s6\<lparr>loading := False, error := Some ''Failed to fetch dashboard data. Please try again.''\<rparr> \<and>
   render (fst (fetchDashboardData s6 (Inl e))) =
     ErrorPanel ''Failed to fetch dashboard data. Please try again.'' \<and>
   fst (createAndFetchNeedsAnalysis s7 customerId rGet rPost (Inl e)) =
     s7\<lparr>loading := False, error := Some ''Failed to fetch needs analysis''\<rparr> \<and>
   NeedsAnalysis_render (fst (createAndFetchNeedsAnalysis s7 customerId rGet rPost (Inl e))) =
     ErrorPanel ''Failed to fetch needs analysis'' \<and>
   fst (createAndFetchNeedsAnalysis s7 customerId rGet rPost (Inr res)) =
     s7\<lparr>loading := False, data := Some res\<rparr> \<and>
   error (fst (createAndFetchNeedsAnalysis s7 customerId (Inl e) rPost (Inr res))) = error s7 \<and>
   error (fst (createAndFetchNeedsAnalysis s7 customerId (Inr c) (Inl e) (Inr res))) = error s7 \<and>
   render (fst (fetchMarketData s8 (Inl e) r2 r3)) =
     ErrorPanel ''Failed to fetch market data. Please try again later.'' \<and>
   fst (fetchMarketData s8 (Inl e) r2 r3) =
     s8\<lparr>loading := False, error := Some ''Failed to fetch market data. Please try again later.''\<rparr> \<and>
   render (fst (fetchMarketData s8 (Inr latest) (Inl e) r3)) =
     ErrorPanel ''Failed to fetch market data. Please try again later.'' \<and>
   fst (fetchMarketData s8 (Inr latest) (Inl e) r3) =
     s8\<lparr>loading := False, error := Some ''Failed to fetch market data. Please try again later.'',
        marketData := latest\<rparr> \<and>
   render (fst (fetchMarketData s8 (Inr latest) (Inr tr) (Inl e))) =
     ErrorPanel ''Failed to fetch market data. Please try again later.'' \<and>
   fst (fetchMarketData s8 (Inr latest) (Inr tr) (Inl e)) =
     s8\<lparr>loading := False, error := Some ''Failed to fetch market data. Please try again later.'',
        marketData := latest, trends := Some tr\<rparr>"
proof -
  have needs_panel:
    "NeedsAnalysis_render (s7\<lparr>loading := False, error := Some ''Failed to fetch needs analysis''\<rparr>)
       = ErrorPanel ''Failed to fetch needs analysis''"
    by (simp add: NeedsAnalysis_render_def error_shown_def)
  show ?thesis
    unfolding ProductsList_fetchProducts_failed ProductComparison_fetchProducts_failed
      fetchMarketData_failed_latest fetchMarketData_failed_trends fetchMarketData_failed_insights
      fetchCustomers_failed InflationCalculator_handleSubmit_failed
      createAndFetchNeedsAnalysis_failed createAndFetchNeedsAnalysis_create_ignored
      fetchRecommendations_failed fetchDashboardData_failed needs_panel
    by (simp add: handleCompare_failed render_def error_shown_def)
qed

theorem failed_fetch_sets_error_witness:
  "2 \<le> length (selectedProducts (ProductComparison_initial\<lparr>selectedProducts := [7, 9]\<rparr>)) \<and>
   fst (handleCompare (ProductComparison_initial\<lparr>selectedProducts := [7, 9]\<rparr>) (Inl NoResponse)) =
     ProductComparison_initial
       \<lparr>selectedProducts := [7, 9], error := Some ''Failed to compare products''\<rparr>"
  using failed_fetch_sets_error
    [where ?s1.0 = ProductsList_initial and e = NoResponse
       and ?s2.0 = "ProductComparison_initial\<lparr>selectedProducts := [7, 9]\<rparr>"
       and ?s3.0 = PDFReports_initial and ?s4.0 = InflationCalculator_initial
       and ?s5.0 = Recommendations_initial and customerId = 1
       and ?s6.0 = AnalyticsDashboard_initial and ?s7.0 = NeedsAnalysis_initial
       and rGet = "Inl NoResponse" and rPost = "Inl NoResponse" and res = Null
       and c = CustomerForm_initial and ?s8.0 = MarketData_initial
       and ?r2.0 = "Inl NoResponse" and ?r3.0 = "Inl NoResponse" and latest = "[]" and tr = Null]
  by (simp add: ProductComparison_initial_def)

text \<open>
  \<open>generatePDF\<close> asks for a detail too, but of a \<open>Blob\<close>: an HTTP error response to it
  shows the fallback, whatever body the server sent.
\<close>

lemma generatePDF_error_response_instance:
  "selectedCustomer s = Some sel \<Longrightarrow> sel \<noteq> 0 \<Longrightarrow>
   error (fst (generatePDF now s reportType (Inl (ErrorResponse status body))))
     = Some ''Failed to generate PDF''"
  by (simp add: generatePDF_failed Blob_detail_def)




subsection \<open>PDF reports\<close>

lemma generatePDF_frame:
  "(fst (generatePDF now s reportType r))
     \<lparr>loading := loading s, error := error s, success := success s\<rparr> = s"
  by (simp add: generatePDF_def generatePDF_pending_def generatePDF_catch_def Let_def
           split: option.splits sum.splits)

lemma generatePDF_success:
  "selectedCustomer s = Some sel \<Longrightarrow> sel \<noteq> 0 \<Longrightarrow>
   reportType = ''needs-analysis'' \<or> reportType = ''comprehensive'' \<Longrightarrow>
   generatePDF now s reportType (Inr payload) =
     (s\<lparr>loading := False, error := None,
        success := Some (replace_first CHR ''-'' CHR '' '' reportType @ '' PDF generated successfully!'')\<rparr>,
      [Request (if reportType = ''needs-analysis'' then GetPdfNeedsAnalysis sel
                else GetPdfComprehensiveReport sel),
       Download (download_name now (customers s) sel reportType) payload])"
  by (auto simp: generatePDF_def generatePDF_pending_def Let_def)

lemma generatePDF_failure_effects:
  "snd (generatePDF now s reportType (Inl e)) =
     (case selectedCustomer s of
        None \<Rightarrow> []
      | Some sel \<Rightarrow>
          if sel = 0 then []
          else if reportType = ''needs-analysis'' then [Request (GetPdfNeedsAnalysis sel)]
          else if reportType = ''comprehensive'' then [Request (GetPdfComprehensiveReport sel)]
          else [])"
  by (auto simp: generatePDF_def Let_def split: option.splits)

lemma digit_not_T: "digit n \<noteq> CHR ''T''"
  by (simp add: digit_def Let_def)

lemma split_T_0_toISOString:
  "utc_year now \<le> 9999 \<Longrightarrow> split_T_0 (toISOString now) = isoDate now"
  by (simp add: split_T_0_def toISOString_def isoDate_def isoYear_def pad2_def pad4_def digit_not_T)

lemma replace_ws_no_space: "c \<in> set (replace_ws xs) \<Longrightarrow> \<not> is_space c"
proof (induction xs rule: replace_ws.induct)
  case 1
  then show ?case by simp
next
  case (2 c' cs)
  have us: "\<not> is_space CHR ''_''" by (simp add: is_space_def)
  from 2 us show ?case by (auto split: if_splits)
qed

lemma replace_ws_id: "\<forall>c \<in> set xs. \<not> is_space c \<Longrightarrow> replace_ws xs = xs"
  by (induction xs) simp_all

lemma replace_ws_run_front:
  "w \<noteq> [] \<Longrightarrow> \<forall>c \<in> set w. is_space c \<Longrightarrow> (b = [] \<or> \<not> is_space (hd b)) \<Longrightarrow>
   replace_ws (w @ b) = CHR ''_'' # replace_ws b"
proof (cases w)
  case Nil
  assume "w \<noteq> []" with Nil show ?thesis by simp
next
  case (Cons x w')
  assume ws: "\<forall>c \<in> set w. is_space c" and b: "b = [] \<or> \<not> is_space (hd b)"
  from ws Cons have "dropWhile is_space (w' @ b) = dropWhile is_space b"
    by (simp add: dropWhile_append)
  moreover from b have "dropWhile is_space b = b" by (cases b) auto
  ultimately show ?thesis using ws Cons by simp
qed

lemma replace_ws_append_nospace:
  "\<forall>c \<in> set a. \<not> is_space c \<Longrightarrow> replace_ws (a @ rest) = a @ replace_ws rest"
  by (induction a) simp_all

lemma replace_ws_run:
  "\<forall>c \<in> set a. \<not> is_space c \<Longrightarrow> w \<noteq> [] \<Longrightarrow> \<forall>c \<in> set w. is_space c \<Longrightarrow>
   (b = [] \<or> \<not> is_space (hd b)) \<Longrightarrow>
   replace_ws (a @ w @ b) = a @ CHR ''_'' # replace_ws b"
  by (simp add: replace_ws_append_nospace replace_ws_run_front)

lemma download_name_found:
  "find (\<lambda>c. pdf_id c = sel) cs = Some c \<Longrightarrow> utc_year now \<le> 9999 \<Longrightarrow>
   download_name now cs sel reportType =
     (if reportType = ''needs-analysis'' then ''needs_analysis_'' else ''comprehensive_report_'') @
     replace_ws (pdf_name c) @ ''_'' @ isoDate now @ ''.pdf''"
  by (simp add: download_name_def split_T_0_toISOString)

lemma download_name_missing:
  "sel \<notin> pdf_id ` set cs \<Longrightarrow> utc_year now \<le> 9999 \<Longrightarrow>
   download_name now cs sel reportType =
     (if reportType = ''needs-analysis'' then ''needs_analysis_'' else ''comprehensive_report_'') @
     ''customer'' @ ''_'' @ isoDate now @ ''.pdf''"
proof -
  assume "sel \<notin> pdf_id ` set cs" and y: "utc_year now \<le> 9999"
  then have "find (\<lambda>c. pdf_id c = sel) cs = None"
    by (auto simp: find_None_iff)
  with y show ?thesis by (simp add: download_name_def split_T_0_toISOString)
qed

text \<open>
  C5: for every report type and every selected customer, \<open>generatePDF\<close> leaves the
  customers list and the selected customer id as they were, whatever the outcome of the
  request: the state after differs from the state before in the cells \<open>loading\<close>, \<open>error\<close>
  and \<open>success\<close> only. On success, and only then, a file save is initiated, of the payload
  received.
\<close>

theorem generatePDF_keeps_data:
  "customers (fst (generatePDF now s reportType r)) = customers s \<and>
   selectedCustomer (fst (generatePDF now s reportType r)) = selectedCustomer s \<and>
   (fst (generatePDF now s reportType r))
     \<lparr>loading := loading s, error := error s, success := success s\<rparr> = s \<and>
   (selectedCustomer s = Some sel \<and> sel \<noteq> 0 \<and>
    (reportType = ''needs-analysis'' \<or> reportType = ''comprehensive'') \<and> r = Inr payload \<longrightarrow>
      snd (generatePDF now s reportType r) =
        [Request (if reportType = ''needs-analysis'' then GetPdfNeedsAnalysis sel
                  else GetPdfComprehensiveReport sel),
         Download (download_name now (customers s) sel reportType) payload]) \<and>
   (r = Inl e \<longrightarrow> filter (\<lambda>x. \<not> is_request x) (snd (generatePDF now s reportType r)) = [])"
proof -
  have frame: "(fst (generatePDF now s reportType r))
      \<lparr>loading := loading s, error := error s, success := success s\<rparr> = s"
    by (rule generatePDF_frame)
  have "customers ((fst (generatePDF now s reportType r))
      \<lparr>loading := loading s, error := error s, success := success s\<rparr>) = customers s"
    by (simp only: frame)
  then have cs: "customers (fst (generatePDF now s reportType r)) = customers s" by simp
  have "selectedCustomer ((fst (generatePDF now s reportType r))
      \<lparr>loading := loading s, error := error s, success := success s\<rparr>) = selectedCustomer s"
    by (simp only: frame)
  then have sc: "selectedCustomer (fst (generatePDF now s reportType r)) = selectedCustomer s"
    by simp
  have ok: "selectedCustomer s = Some sel \<and> sel \<noteq> 0 \<and>
      (reportType = ''needs-analysis'' \<or> reportType = ''comprehensive'') \<and> r = Inr payload \<longrightarrow>
      snd (generatePDF now s reportType r) =
        [Request (if reportType = ''needs-analysis'' then GetPdfNeedsAnalysis sel
                  else GetPdfComprehensiveReport sel),
         Download (download_name now (customers s) sel reportType) payload]"
    by (auto simp: generatePDF_success)
  have bad: "r = Inl e \<longrightarrow>
      filter (\<lambda>x. \<not> is_request x) (snd (generatePDF now s reportType r)) = []"
    by (auto simp: generatePDF_failure_effects split: option.splits)
  from frame cs sc ok bad show ?thesis by blast
qed

theorem generatePDF_keeps_data_witness:
  "customers (fst (generatePDF
       \<lparr>utc_year = 2026, utc_month = 11, utc_day = 3, utc_hours = 9, utc_minutes = 30,
        utc_seconds = 0, utc_milliseconds = 0\<rparr>
       (PDFReports_initial\<lparr>selectedCustomer := Some 7\<rparr>) ''comprehensive'' (Inr ''%PDF'')))
     = customers PDFReports_initial \<and>
   snd (generatePDF
       \<lparr>utc_year = 2026, utc_month = 11, utc_day = 3, utc_hours = 9, utc_minutes = 30,
        utc_seconds = 0, utc_milliseconds = 0\<rparr>
       (PDFReports_initial\<lparr>selectedCustomer := Some 7\<rparr>) ''comprehensive'' (Inr ''%PDF''))
     = [Request (GetPdfComprehensiveReport 7),
        Download ''comprehensive_report_customer_2026-11-03.pdf'' ''%PDF''] \<and>
   filter (\<lambda>x. \<not> is_request x) (snd (generatePDF
       \<lparr>utc_year = 2026, utc_month = 11, utc_day = 3, utc_hours = 9, utc_minutes = 30,
        utc_seconds = 0, utc_milliseconds = 0\<rparr>
       (PDFReports_initial\<lparr>selectedCustomer := Some 7\<rparr>) ''comprehensive'' (Inl NoResponse)))
     = []"
  using generatePDF_keeps_data
    [of "\<lparr>utc_year = 2026, utc_month = 11, utc_day = 3, utc_hours = 9, utc_minutes = 30,
        utc_seconds = 0, utc_milliseconds = 0\<rparr>"
        "PDFReports_initial\<lparr>selectedCustomer := Some 7\<rparr>" "''comprehensive''" "Inr ''%PDF''"
        7 "''%PDF''" NoResponse]
        generatePDF_keeps_data
    [of "\<lparr>utc_year = 2026, utc_month = 11, utc_day = 3, utc_hours = 9, utc_minutes = 30,
        utc_seconds = 0, utc_milliseconds = 0\<rparr>"
        "PDFReports_initial\<lparr>selectedCustomer := Some 7\<rparr>" "''comprehensive''" "Inl NoResponse"
        7 "''%PDF''" NoResponse]
  by (simp add: PDFReports_initial_def download_name_def split_T_0_def toISOString_def
                isoDate_def isoYear_def pad2_def pad3_def pad4_def digit_def)

text \<open>
  C6: for every successful PDF generation (in a year up to 9999, where the ISO year has
  four digits) the file is saved as \<open>needs_analysis_<name>_<date>.pdf\<close> for the
  needs-analysis kind and as \<open>comprehensive_report_<name>_<date>.pdf\<close> for the
  comprehensive kind. \<open><date>\<close> is the current UTC date as \<open>YYYY-MM-DD\<close>. \<open><name>\<close> is
  \<open>customer\<close> when no loaded customer has the selected id, and otherwise the name of the
  (first) customer with that id with every whitespace run replaced by one underscore:
  the result holds no whitespace, a name without whitespace is kept, and a run of
  whitespace between a whitespace-free prefix and a rest that does not start with
  whitespace gives exactly one underscore.
\<close>

theorem generatePDF_download_name:
  "(selectedCustomer s = Some sel \<and> sel \<noteq> 0 \<and> utc_year now \<le> 9999 \<longrightarrow>
      (find (\<lambda>c. pdf_id c = sel) (customers s) = Some c \<longrightarrow>
         snd (generatePDF now s ''needs-analysis'' (Inr payload)) =
           [Request (GetPdfNeedsAnalysis sel),
            Download (''needs_analysis_'' @ replace_ws (pdf_name c) @ ''_'' @
                      pad4 (utc_year now) @ ''-'' @ pad2 (utc_month now) @ ''-'' @
                      pad2 (utc_day now) @ ''.pdf'') payload] \<and>
         snd (generatePDF now s ''comprehensive'' (Inr payload)) =
           [Request (GetPdfComprehensiveReport sel),
            Download (''comprehensive_report_'' @ replace_ws (pdf_name c) @ ''_'' @
                      pad4 (utc_year now) @ ''-'' @ pad2 (utc_month now) @ ''-'' @
                      pad2 (utc_day now) @ ''.pdf'') payload]) \<and>
      (sel \<notin> pdf_id ` set (customers s) \<longrightarrow>
         snd (generatePDF now s ''needs-analysis'' (Inr payload)) =
           [Request (GetPdfNeedsAnalysis sel),
            Download (''needs_analysis_'' @ ''customer'' @ ''_'' @
                      pad4 (utc_year now) @ ''-'' @ pad2 (utc_month now) @ ''-'' @
                      pad2 (utc_day now) @ ''.pdf'') payload] \<and>
         snd (generatePDF now s ''comprehensive'' (Inr payload)) =
           [Request (GetPdfComprehensiveReport sel),
            Download (''comprehensive_report_'' @ ''customer'' @ ''_'' @
                      pad4 (utc_year now) @ ''-'' @ pad2 (utc_month now) @ ''-'' @
                      pad2 (utc_day now) @ ''.pdf'') payload])) \<and>
   (\<forall>ch \<in> set (replace_ws nm). \<not> is_space ch) \<and>
   ((\<forall>ch \<in> set nm. \<not> is_space ch) \<longrightarrow> replace_ws nm = nm) \<and>
   ((\<forall>ch \<in> set a. \<not> is_space ch) \<and> w \<noteq> [] \<and> (\<forall>ch \<in> set w. is_space ch) \<and>
    (b = [] \<or> \<not> is_space (hd b)) \<longrightarrow>
      replace_ws (a @ w @ b) = a @ ''_'' @ replace_ws b)"
proof -
  have found: "selectedCustomer s = Some sel \<and> sel \<noteq> 0 \<and> utc_year now \<le> 9999 \<longrightarrow>
      find (\<lambda>c. pdf_id c = sel) (customers s) = Some c \<longrightarrow>
         snd (generatePDF now s ''needs-analysis'' (Inr payload)) =
           [Request (GetPdfNeedsAnalysis sel),
            Download (''needs_analysis_'' @ replace_ws (pdf_name c) @ ''_'' @
                      pad4 (utc_year now) @ ''-'' @ pad2 (utc_month now) @ ''-'' @
                      pad2 (utc_day now) @ ''.pdf'') payload] \<and>
         snd (generatePDF now s ''comprehensive'' (Inr payload)) =
           [Request (GetPdfComprehensiveReport sel),
            Download (''comprehensive_report_'' @ replace_ws (pdf_name c) @ ''_'' @
                      pad4 (utc_year now) @ ''-'' @ pad2 (utc_month now) @ ''-'' @
                      pad2 (utc_day now) @ ''.pdf'') payload]"
    by (simp add: generatePDF_success download_name_found isoDate_def isoYear_def)
  have missing: "selectedCustomer s = Some sel \<and> sel \<noteq> 0 \<and> utc_year now \<le> 9999 \<longrightarrow>
      sel \<notin> pdf_id ` set (customers s) \<longrightarrow>
         snd (generatePDF now s ''needs-analysis'' (Inr payload)) =
           [Request (GetPdfNeedsAnalysis sel),
            Download (''needs_analysis_'' @ ''customer'' @ ''_'' @
                      pad4 (utc_year now) @ ''-'' @ pad2 (utc_month now) @ ''-'' @
                      pad2 (utc_day now) @ ''.pdf'') payload] \<and>
         snd (generatePDF now s ''comprehensive'' (Inr payload)) =
           [Request (GetPdfComprehensiveReport sel),
            Download (''comprehensive_report_'' @ ''customer'' @ ''_'' @
                      pad4 (utc_year now) @ ''-'' @ pad2 (utc_month now) @ ''-'' @
                      pad2 (utc_day now) @ ''.pdf'') payload]"
    by (simp add: generatePDF_success download_name_missing isoDate_def isoYear_def)
  have nospace: "\<forall>ch \<in> set (replace_ws nm). \<not> is_space ch"
    using replace_ws_no_space by blast
  have keep: "(\<forall>ch \<in> set nm. \<not> is_space ch) \<longrightarrow> replace_ws nm = nm"
    using replace_ws_id by blast
  have run: "(\<forall>ch \<in> set a. \<not> is_space ch) \<and> w \<noteq> [] \<and> (\<forall>ch \<in> set w. is_space ch) \<and>
      (b = [] \<or> \<not> is_space (hd b)) \<longrightarrow> replace_ws (a @ w @ b) = a @ ''_'' @ replace_ws b"
    using replace_ws_run [of a w b] by simp
  from found missing nospace keep run show ?thesis by blast
qed

theorem generatePDF_download_name_witness:
  "snd (generatePDF
       \<lparr>utc_year = 2026, utc_month = 11, utc_day = 3, utc_hours = 9, utc_minutes = 30,
        utc_seconds = 0, utc_milliseconds = 0\<rparr>
       (PDFReports_initial
          \<lparr>customers := [\<lparr>pdf_id = 7, pdf_name = ''Asha  K Rao'', pdf_email = ''asha@example.org'',
          pdf_age = 35, pdf_annual_income = 1200000, pdf_family_size = 3\<rparr>],
           selectedCustomer := Some 7\<rparr>)
       ''needs-analysis'' (Inr ''%PDF''))
     = [Request (GetPdfNeedsAnalysis 7),
        Download ''needs_analysis_Asha_K_Rao_2026-11-03.pdf'' ''%PDF''] \<and>
   snd (generatePDF
       \<lparr>utc_year = 2026, utc_month = 11, utc_day = 3, utc_hours = 9, utc_minutes = 30,
        utc_seconds = 0, utc_milliseconds = 0\<rparr>
       (PDFReports_initial
          \<lparr>customers := [\<lparr>pdf_id = 7, pdf_name = ''Asha  K Rao'', pdf_email = ''asha@example.org'',
          pdf_age = 35, pdf_annual_income = 1200000, pdf_family_size = 3\<rparr>],
           selectedCustomer := Some 8\<rparr>)
       ''comprehensive'' (Inr ''%PDF''))
     = [Request (GetPdfComprehensiveReport 8),
        Download ''comprehensive_report_customer_2026-11-03.pdf'' ''%PDF''] \<and>
   replace_ws ''Asha  K Rao'' = ''Asha_K_Rao'' \<and>
   replace_ws ''Asha'' = ''Asha''"
  using generatePDF_download_name
    [of "PDFReports_initial
          \<lparr>customers := [\<lparr>pdf_id = 7, pdf_name = ''Asha  K Rao'', pdf_email = ''asha@example.org'',
          pdf_age = 35, pdf_annual_income = 1200000, pdf_family_size = 3\<rparr>],
           selectedCustomer := Some 7\<rparr>"
        7
        "\<lparr>utc_year = 2026, utc_month = 11, utc_day = 3, utc_hours = 9, utc_minutes = 30,
        utc_seconds = 0, utc_milliseconds = 0\<rparr>"
        "\<lparr>pdf_id = 7, pdf_name = ''Asha  K Rao'', pdf_email = ''asha@example.org'',
          pdf_age = 35, pdf_annual_income = 1200000, pdf_family_size = 3\<rparr>"
        "''%PDF''" "''Asha  K Rao''" "''Asha''" "''  ''" "''K Rao''"]
        generatePDF_download_name
    [of "PDFReports_initial
          \<lparr>customers := [\<lparr>pdf_id = 7, pdf_name = ''Asha  K Rao'', pdf_email = ''asha@example.org'',
          pdf_age = 35, pdf_annual_income = 1200000, pdf_family_size = 3\<rparr>],
           selectedCustomer := Some 8\<rparr>"
        8
        "\<lparr>utc_year = 2026, utc_month = 11, utc_day = 3, utc_hours = 9, utc_minutes = 30,
        utc_seconds = 0, utc_milliseconds = 0\<rparr>"
        "\<lparr>pdf_id = 7, pdf_name = ''Asha  K Rao'', pdf_email = ''asha@example.org'',
          pdf_age = 35, pdf_annual_income = 1200000, pdf_family_size = 3\<rparr>"
        "''%PDF''" "''Asha''" "''Asha''" "''  ''" "''K Rao''"]
  by (simp add: PDFReports_initial_def pad2_def pad4_def digit_def is_space_def)

subsection \<open>Controls while a request is in flight\<close>

lemma render_loading: "render s = LoadingIndicator \<longleftrightarrow> loading s"
  by (simp add: render_def split: option.splits)

lemma generatePDF_clears_loading:
  "selectedCustomer s = Some sel \<Longrightarrow> sel \<noteq> 0 \<Longrightarrow> \<not> loading (fst (generatePDF now s reportType r))"
  by (simp add: generatePDF_def generatePDF_pending_def generatePDF_catch_def Let_def
           split: sum.splits)

lemma generatePDF_failure:
  "selectedCustomer s = Some sel \<Longrightarrow> sel \<noteq> 0 \<Longrightarrow>
   reportType = ''needs-analysis'' \<or> reportType = ''comprehensive'' \<Longrightarrow>
   generatePDF now s reportType (Inl e) =
     (generatePDF_catch (generatePDF_pending s) e,
      [Request (if reportType = ''needs-analysis'' then GetPdfNeedsAnalysis sel
                else GetPdfComprehensiveReport sel)])"
  by (auto simp: generatePDF_def Let_def)

lemma generatePDF_unknown_type:
  "selectedCustomer s = Some sel \<Longrightarrow> sel \<noteq> 0 \<Longrightarrow>
   reportType \<noteq> ''needs-analysis'' \<Longrightarrow> reportType \<noteq> ''comprehensive'' \<Longrightarrow>
   generatePDF now s reportType r =
     (generatePDF_catch (generatePDF_pending s) (Thrown ''Invalid report type''), [])"
  by (simp add: generatePDF_def Let_def)

lemma fetchMarketData_clears_loading: "\<not> loading (fst (fetchMarketData s r1 r2 r3))"
  by (simp add: fetchMarketData_def fetchMarketData_pending_def fetchMarketData_catch_def Let_def
           split: sum.splits)

text \<open>
  C8: in every view that issues a request from a user action, the handler sends its
  request from a state in which the loading flag is set (the state while the request is
  in flight); whenever the loading flag is set the initiating control is disabled, and a
  click on it sends no request and changes nothing, while an enabled control runs the
  handler; and the handler's state after the request resolves is the settlement of that
  in-flight state, in which the loading flag is cleared, on success and on failure
  alike. This is shown for the compare button of ProductComparison, the submit button of
  InflationCalculator, the generate buttons of PDFReports and the submit button of the
  customer form. The refresh and retry buttons of MarketData and AnalyticsDashboard have
  no \<open>disabled\<close> attribute: while the loading flag is set the view renders the loading
  indicator in place of the page that holds them; their fetches too go through states
  with the flag set (for MarketData, before each of the three requests) and clear it on
  every outcome.
\<close>

theorem control_disabled_while_loading:
  "loading (handleCompare_pending s1) \<and>
   (loading s1 \<longrightarrow> compare_disabled s1 \<and> compare_click s1 r1 = (s1, [])) \<and>
   (\<not> compare_disabled s1 \<longrightarrow> compare_click s1 r1 = handleCompare s1 r1) \<and>
   (2 \<le> length (selectedProducts s1) \<longrightarrow>
      handleCompare s1 r1 =
        (handleCompare_settle (handleCompare_pending s1) r1, [Request (handleCompare_request s1)])) \<and>
   \<not> loading (handleCompare_settle s1 (Inr d1)) \<and>
   \<not> loading (handleCompare_settle s1 (Inl e)) \<and>
   loading (InflationCalculator_handleSubmit_pending s2) \<and>
   (loading s2 \<longrightarrow> calculate_disabled s2 \<and> calculate_click s2 r2 = (s2, [])) \<and>
   (\<not> calculate_disabled s2 \<longrightarrow> calculate_click s2 r2 = InflationCalculator_handleSubmit s2 r2) \<and>
   InflationCalculator_handleSubmit s2 r2 =
     (InflationCalculator_handleSubmit_settle (InflationCalculator_handleSubmit_pending s2) r2,
      [Request (PostInflationAdjustedReturns (formData s2))]) \<and>
   \<not> loading (InflationCalculator_handleSubmit_settle s2 (Inr d2)) \<and>
   \<not> loading (InflationCalculator_handleSubmit_settle s2 (Inl e)) \<and>
   loading (generatePDF_pending s3) \<and>
   (loading s3 \<longrightarrow> generate_disabled s3 \<and> generate_click now s3 reportType r3 = (s3, [])) \<and>
   (\<not> generate_disabled s3 \<longrightarrow> generate_click now s3 reportType r3 = generatePDF now s3 reportType r3) \<and>
   (selectedCustomer s3 = Some sel \<and> sel \<noteq> 0 \<longrightarrow>
      (reportType = ''needs-analysis'' \<or> reportType = ''comprehensive'' \<longrightarrow>
         generatePDF now s3 reportType (Inr d3) =
           ((generatePDF_pending s3)
              \<lparr>success := Some (replace_first CHR ''-'' CHR '' '' reportType @
                                 '' PDF generated successfully!''),
               loading := False\<rparr>,
            [Request (if reportType = ''needs-analysis'' then GetPdfNeedsAnalysis sel
                      else GetPdfComprehensiveReport sel),
             Download (download_name now (customers s3) sel reportType) d3]) \<and>
         generatePDF now s3 reportType (Inl eb) =
           (generatePDF_catch (generatePDF_pending s3) eb,
            [Request (if reportType = ''needs-analysis'' then GetPdfNeedsAnalysis sel
                      else GetPdfComprehensiveReport sel)])) \<and>
      (reportType \<noteq> ''needs-analysis'' \<and> reportType \<noteq> ''comprehensive'' \<longrightarrow>
         generatePDF now s3 reportType r3 =
           (generatePDF_catch (generatePDF_pending s3) (Thrown ''Invalid report type''), [])) \<and>
      \<not> loading (fst (generatePDF now s3 reportType (Inr d3))) \<and>
      \<not> loading (fst (generatePDF now s3 reportType (Inl eb)))) \<and>
   \<not> loading (generatePDF_catch s3 eb) \<and>
   loading (handleCustomerSubmit_pending s4) \<and>
   (loading s4 \<longrightarrow> CustomerForm_disabled s4 \<and> CustomerForm_click s4 draft r4 = (s4, [])) \<and>
   (\<not> CustomerForm_disabled s4 \<longrightarrow> CustomerForm_click s4 draft r4 = submitCustomerForm s4 draft r4) \<and>
   handleCustomerSubmit s4 draft r4 =
     (handleCustomerSubmit_settle (handleCustomerSubmit_pending s4) r4,
      [Request (PostCustomers draft)]) \<and>
   \<not> loading (handleCustomerSubmit_settle s4 (Inr d4)) \<and>
   \<not> loading (handleCustomerSubmit_settle s4 (Inl e)) \<and>
   (loading s5 \<longrightarrow> render s5 = LoadingIndicator) \<and>
   loading (fetchMarketData_pending s5) \<and>
   loading ((fetchMarketData_pending s5)\<lparr>marketData := latest\<rparr>) \<and>
   loading ((fetchMarketData_pending s5)\<lparr>marketData := latest, trends := Some tr\<rparr>) \<and>
   fetchMarketData s5 (Inl e) r6 r7 =
     (fetchMarketData_catch (fetchMarketData_pending s5) e, [Request GetMarketDataLatest]) \<and>
   fetchMarketData s5 (Inr latest) (Inl e) r7 =
     (fetchMarketData_catch ((fetchMarketData_pending s5)\<lparr>marketData := latest\<rparr>) e,
      [Request GetMarketDataLatest, Request GetMarketDataTrends]) \<and>
   fetchMarketData s5 (Inr latest) (Inr tr) (Inl e) =
     (fetchMarketData_catch
        ((fetchMarketData_pending s5)\<lparr>marketData := latest, trends := Some tr\<rparr>) e,
      [Request GetMarketDataLatest, Request GetMarketDataTrends, Request GetMarketDataInsights]) \<and>
   fetchMarketData s5 (Inr latest) (Inr tr) (Inr ins) =
     ((fetchMarketData_pending s5)
        \<lparr>marketData := latest, trends := Some tr, insights := Some ins, loading := False\<rparr>,
      [Request GetMarketDataLatest, Request GetMarketDataTrends, Request GetMarketDataInsights]) \<and>
   \<not> loading (fetchMarketData_catch s5 e) \<and>
   \<not> loading (fst (fetchMarketData s5 r5 r6 r7)) \<and>
   (loading s6 \<longrightarrow> render s6 = LoadingIndicator) \<and>
   loading (fetchDashboardData_pending s6) \<and>
   fetchDashboardData s6 r8 =
     (fetchDashboardData_settle (fetchDashboardData_pending s6) r8,
      [Request (GetAnalyticsDashboard (selectedPeriod s6))]) \<and>
   \<not> loading (fetchDashboardData_settle s6 (Inr d6)) \<and>
   \<not> loading (fetchDashboardData_settle s6 (Inl e))"
proof -
  have compare: "loading (handleCompare_pending s1) \<and>
      (loading s1 \<longrightarrow> compare_disabled s1 \<and> compare_click s1 r1 = (s1, [])) \<and>
      (\<not> compare_disabled s1 \<longrightarrow> compare_click s1 r1 = handleCompare s1 r1) \<and>
      (2 \<le> length (selectedProducts s1) \<longrightarrow>
         handleCompare s1 r1 =
           (handleCompare_settle (handleCompare_pending s1) r1, [Request (handleCompare_request s1)])) \<and>
      \<not> loading (handleCompare_settle s1 (Inr d1)) \<and>
      \<not> loading (handleCompare_settle s1 (Inl e))"
    by (simp add: handleCompare_pending_def compare_disabled_def compare_click_def
                  handleCompare_settle_def handleCompare_def)
  have calc: "loading (InflationCalculator_handleSubmit_pending s2) \<and>
      (loading s2 \<longrightarrow> calculate_disabled s2 \<and> calculate_click s2 r2 = (s2, [])) \<and>
      (\<not> calculate_disabled s2 \<longrightarrow> calculate_click s2 r2 = InflationCalculator_handleSubmit s2 r2) \<and>
      InflationCalculator_handleSubmit s2 r2 =
        (InflationCalculator_handleSubmit_settle (InflationCalculator_handleSubmit_pending s2) r2,
         [Request (PostInflationAdjustedReturns (formData s2))]) \<and>
      \<not> loading (InflationCalculator_handleSubmit_settle s2 (Inr d2)) \<and>
      \<not> loading (InflationCalculator_handleSubmit_settle s2 (Inl e))"
    by (simp add: InflationCalculator_handleSubmit_pending_def calculate_disabled_def
                  calculate_click_def InflationCalculator_handleSubmit_settle_def
                  InflationCalculator_handleSubmit_def)
  have pdf: "loading (generatePDF_pending s3) \<and>
      (loading s3 \<longrightarrow> generate_disabled s3 \<and> generate_click now s3 reportType r3 = (s3, [])) \<and>
      (\<not> generate_disabled s3 \<longrightarrow> generate_click now s3 reportType r3 = generatePDF now s3 reportType r3) \<and>
      (selectedCustomer s3 = Some sel \<and> sel \<noteq> 0 \<longrightarrow>
         (reportType = ''needs-analysis'' \<or> reportType = ''comprehensive'' \<longrightarrow>
            generatePDF now s3 reportType (Inr d3) =
              ((generatePDF_pending s3)
                 \<lparr>success := Some (replace_first CHR ''-'' CHR '' '' reportType @
                                    '' PDF generated successfully!''),
                  loading := False\<rparr>,
               [Request (if reportType = ''needs-analysis'' then GetPdfNeedsAnalysis sel
                         else GetPdfComprehensiveReport sel),
                Download (download_name now (customers s3) sel reportType) d3]) \<and>
            generatePDF now s3 reportType (Inl eb) =
              (generatePDF_catch (generatePDF_pending s3) eb,
               [Request (if reportType = ''needs-analysis'' then GetPdfNeedsAnalysis sel
                         else GetPdfComprehensiveReport sel)])) \<and>
         (reportType \<noteq> ''needs-analysis'' \<and> reportType \<noteq> ''comprehensive'' \<longrightarrow>
            generatePDF now s3 reportType r3 =
              (generatePDF_catch (generatePDF_pending s3) (Thrown ''Invalid report type''), [])) \<and>
         \<not> loading (fst (generatePDF now s3 reportType (Inr d3))) \<and>
         \<not> loading (fst (generatePDF now s3 reportType (Inl eb)))) \<and>
      \<not> loading (generatePDF_catch s3 eb)"
    using generatePDF_clears_loading [of s3 sel now reportType]
          generatePDF_success [of s3 sel reportType now d3]
          generatePDF_failure [of s3 sel reportType now eb]
          generatePDF_unknown_type [of s3 sel reportType now r3]
    by (simp add: generatePDF_pending_def generate_disabled_def generate_click_def
                  generatePDF_catch_def)
  have form: "loading (handleCustomerSubmit_pending s4) \<and>
      (loading s4 \<longrightarrow> CustomerForm_disabled s4 \<and> CustomerForm_click s4 draft r4 = (s4, [])) \<and>
      (\<not> CustomerForm_disabled s4 \<longrightarrow> CustomerForm_click s4 draft r4 = submitCustomerForm s4 draft r4) \<and>
      handleCustomerSubmit s4 draft r4 =
        (handleCustomerSubmit_settle (handleCustomerSubmit_pending s4) r4,
         [Request (PostCustomers draft)]) \<and>
      \<not> loading (handleCustomerSubmit_settle s4 (Inr d4)) \<and>
      \<not> loading (handleCustomerSubmit_settle s4 (Inl e))"
    by (simp add: handleCustomerSubmit_pending_def CustomerForm_disabled_def
                  CustomerForm_click_def handleCustomerSubmit_settle_def handleCustomerSubmit_def)
  have market: "(loading s5 \<longrightarrow> render s5 = LoadingIndicator) \<and>
      loading (fetchMarketData_pending s5) \<and>
      loading ((fetchMarketData_pending s5)\<lparr>marketData := latest\<rparr>) \<and>
      loading ((fetchMarketData_pending s5)\<lparr>marketData := latest, trends := Some tr\<rparr>) \<and>
      fetchMarketData s5 (Inl e) r6 r7 =
        (fetchMarketData_catch (fetchMarketData_pending s5) e, [Request GetMarketDataLatest]) \<and>
      fetchMarketData s5 (Inr latest) (Inl e) r7 =
        (fetchMarketData_catch ((fetchMarketData_pending s5)\<lparr>marketData := latest\<rparr>) e,
         [Request GetMarketDataLatest, Request GetMarketDataTrends]) \<and>
      fetchMarketData s5 (Inr latest) (Inr tr) (Inl e) =
        (fetchMarketData_catch
           ((fetchMarketData_pending s5)\<lparr>marketData := latest, trends := Some tr\<rparr>) e,
         [Request GetMarketDataLatest, Request GetMarketDataTrends, Request GetMarketDataInsights]) \<and>
      fetchMarketData s5 (Inr latest) (Inr tr) (Inr ins) =
        ((fetchMarketData_pending s5)
           \<lparr>marketData := latest, trends := Some tr, insights := Some ins, loading := False\<rparr>,
         [Request GetMarketDataLatest, Request GetMarketDataTrends, Request GetMarketDataInsights]) \<and>
      \<not> loading (fetchMarketData_catch s5 e) \<and>
      \<not> loading (fst (fetchMarketData s5 r5 r6 r7))"
    using fetchMarketData_clears_loading [of s5 r5 r6 r7]
    by (simp add: render_loading fetchMarketData_def fetchMarketData_pending_def
                  fetchMarketData_catch_def)
  have dash: "(loading s6 \<longrightarrow> render s6 = LoadingIndicator) \<and>
      loading (fetchDashboardData_pending s6) \<and>
      fetchDashboardData s6 r8 =
        (fetchDashboardData_settle (fetchDashboardData_pending s6) r8,
         [Request (GetAnalyticsDashboard (selectedPeriod s6))]) \<and>
      \<not> loading (fetchDashboardData_settle s6 (Inr d6)) \<and>
      \<not> loading (fetchDashboardData_settle s6 (Inl e))"
    by (simp add: render_loading fetchDashboardData_def fetchDashboardData_pending_def
                  fetchDashboardData_settle_def)
  from compare calc pdf form market dash show ?thesis
    by (elim conjE, intro conjI) assumption+
qed

theorem control_disabled_while_loading_witness:
  "loading (handleCompare_pending (ProductComparison_initial\<lparr>selectedProducts := [7, 9]\<rparr>)) \<and>
   compare_click (handleCompare_pending (ProductComparison_initial\<lparr>selectedProducts := [7, 9]\<rparr>))
       (Inr Null)
     = (handleCompare_pending (ProductComparison_initial\<lparr>selectedProducts := [7, 9]\<rparr>), []) \<and>
   generate_click
       \<lparr>utc_year = 2026, utc_month = 11, utc_day = 3, utc_hours = 9, utc_minutes = 30,
        utc_seconds = 0, utc_milliseconds = 0\<rparr>
       (generatePDF_pending (PDFReports_initial\<lparr>selectedCustomer := Some 7\<rparr>))
       ''comprehensive'' (Inr ''%PDF'')
     = (generatePDF_pending (PDFReports_initial\<lparr>selectedCustomer := Some 7\<rparr>), []) \<and>
   generatePDF
       \<lparr>utc_year = 2026, utc_month = 11, utc_day = 3, utc_hours = 9, utc_minutes = 30,
        utc_seconds = 0, utc_milliseconds = 0\<rparr>
       (generatePDF_pending (PDFReports_initial\<lparr>selectedCustomer := Some 7\<rparr>))
       ''comprehensive'' (Inl NoResponse)
     = (PDFReports_initial\<lparr>selectedCustomer := Some 7, error := Some ''Failed to generate PDF''\<rparr>,
        [Request (GetPdfComprehensiveReport 7)]) \<and>
   render MarketData_initial = LoadingIndicator"
  using control_disabled_while_loading
    [where ?s1.0 = "handleCompare_pending (ProductComparison_initial\<lparr>selectedProducts := [7, 9]\<rparr>)"
       and ?r1.0 = "Inr Null"
       and ?s2.0 = "InflationCalculator_handleSubmit_pending InflationCalculator_initial"
       and ?s3.0 = "generatePDF_pending (PDFReports_initial\<lparr>selectedCustomer := Some 7\<rparr>)"
       and now = "\<lparr>utc_year = 2026, utc_month = 11, utc_day = 3, utc_hours = 9, utc_minutes = 30,
        utc_seconds = 0, utc_milliseconds = 0\<rparr>"
       and reportType = "''comprehensive''" and ?r3.0 = "Inr ''%PDF''" and sel = 7
       and eb = NoResponse
       and ?s4.0 = "handleCustomerSubmit_pending App_initial"
       and ?s5.0 = MarketData_initial and ?s6.0 = AnalyticsDashboard_initial]
  by (simp add: handleCompare_pending_def generatePDF_pending_def generatePDF_catch_def
                PDFReports_initial_def ProductComparison_initial_def MarketData_initial_def)

subsection \<open>The calculator input of createNeedsAnalysis\<close>

text \<open>
  C9, as stated: \<open>existing_coverage\<close> equals \<open>existing_insurance.total\<close> when that field is
  present. \<open>existing_insurance\<close> has type \<open>any\<close>; a total that is present but falsy (the
  empty string, \<open>false\<close>, \<open>null\<close>) is replaced by 0.
\<close>

theorem calculatorInput_falsy_total_counterexample:
  "in_existing_coverage
     (calculatorInput (CustomerForm_initial\<lparr>existing_insurance := Obj [(''total'', Str [])]\<rparr>))
   \<noteq> opt_member (existing_insurance
         (CustomerForm_initial\<lparr>existing_insurance := Obj [(''total'', Str [])]\<rparr>)) ''total''"
  by (simp add: calculatorInput_def js_or_def CustomerForm_initial_def)

text \<open>
  C9, amended: for every customer id, \<open>createNeedsAnalysis\<close> first fetches that customer
  and, when the fetch succeeds, posts a CalculatorInput whose customer_id, age, gender,
  annual_income, family_size and dependents equal the fetched customer's fields, whose
  existing_coverage equals \<open>existing_insurance.total\<close> when that field is present and
  truthy (so for every number: 0 gives 0) and 0 otherwise, and whose remaining fields
  are the constants calculation_type 'comprehensive', debt_obligations 0,
  children_education_needs 0, retirement_needs 0, inflation_rate 6.0 and return_rate
  8.0; the call resolves as the post does. When the fetch fails nothing is posted and the
  call fails with the fetch.
\<close>

theorem createNeedsAnalysis_input:
  "snd (createNeedsAnalysis customerId (Inr c) rPost) =
     [Request (GetCustomerById customerId),
      Request (PostNeedsAnalysis
        \<lparr>in_customer_id = cust_id c,
         in_calculation_type = ''comprehensive'',
         in_age = age c,
         in_gender = gender c,
         in_annual_income = annual_income c,
         in_family_size = family_size c,
         in_dependents = dependents c,
         in_existing_coverage =
           (if truthy (opt_member (existing_insurance c) ''total'')
            then opt_member (existing_insurance c) ''total'' else Num 0),
         in_debt_obligations = 0,
         in_children_education_needs = 0,
         in_retirement_needs = 0,
         in_inflation_rate = 6,
         in_return_rate = 8\<rparr>)] \<and>
   fst (createNeedsAnalysis customerId (Inr c) rPost) = rPost \<and>
   createNeedsAnalysis customerId (Inl e) rPost = (Inl e, [Request (GetCustomerById customerId)]) \<and>
   (existing_insurance c = Obj kvs \<and> map_of kvs ''total'' = Some (Num n) \<longrightarrow>
      in_existing_coverage (calculatorInput c) = Num n) \<and>
   (opt_member (existing_insurance c) ''total'' = Undefined \<longrightarrow>
      in_existing_coverage (calculatorInput c) = Num 0)"
  by (simp add: createNeedsAnalysis_def calculatorInput_def js_or_def)

theorem createNeedsAnalysis_input_witness:
  "in_existing_coverage
     (calculatorInput (CustomerForm_initial\<lparr>existing_insurance := Obj [(''total'', Num 2500000)]\<rparr>))
     = Num 2500000 \<and>
   in_existing_coverage (calculatorInput CustomerForm_initial) = Num 0"
  using createNeedsAnalysis_input
    [of 7 "CustomerForm_initial\<lparr>existing_insurance := Obj [(''total'', Num 2500000)]\<rparr>"
        "Inr Null" NoResponse "[(''total'', Num 2500000)]" 2500000]
        createNeedsAnalysis_input
    [of 7 CustomerForm_initial "Inr Null" NoResponse "[]" 0]
  by (simp add: CustomerForm_initial_def)

end
